theory Spec2Isabelle
  imports Complex_Main "HOL-Library.Sublist"
begin

section \<open>Data model (backend/app/models.py)\<close>

text \<open>
  The enum \<open>ProcessingStage\<close> with its seven members, in the order of the source.
\<close>

datatype ProcessingStage =
  UPLOADED | TRANSCRIBING | DIARIZING | SUMMARIZING | TTS | COMPLETED | FAILED

text \<open>
  \<open>SpeakerTurn\<close>. The fields \<open>start\<close>, \<open>end\<close> and \<open>text\<close> of the source are
  named \<open>turn_start\<close>, \<open>turn_end\<close> and \<open>turn_text\<close> here (\<open>end\<close> and \<open>text\<close> are
  reserved words). The two offsets are Python floats; the code only copies them and
  defaults them to \<open>0.0\<close>, it never computes with them, so they are modelled as reals.
\<close>

record SpeakerTurn =
  speaker :: string
  turn_start :: real
  turn_end :: real
  turn_text :: string

record TranscriptResult =
  language :: "string option"
  duration :: "real option"
  turns :: "SpeakerTurn list"

record SummarySection =
  section_speaker :: string
  highlights :: "string list"

record SummaryResult =
  overview :: string
  per_speaker :: "SummarySection list"
  key_points :: "string list"

text \<open>
  \<open>datetime\<close> values are points on a linear time axis (microseconds since the epoch).
\<close>

type_synonym datetime = int

record ProcessingStatus =
  job_id :: string
  stage :: ProcessingStage
  detail :: "string option"
  created_at :: datetime
  updated_at :: datetime
  errors :: "string list"
  assets :: "string \<rightharpoonup> string"

record TTSRequest =
  tts_job_id :: string
  tts_text :: string
  voice :: "string option"

record ProcessRequest =
  req_job_id :: string
  enable_tts :: bool

record ProcessResponse =
  resp_job_id :: string
  resp_status :: ProcessingStatus

section \<open>Exceptions\<close>

text \<open>
  The exceptions of the modelled code, by class:
  \<^item> \<open>KeyError\<close> with its key, raised by a dictionary subscript;
  \<^item> \<open>NoneToFloat\<close>, the \<open>TypeError\<close> that \<open>float(None)\<close> raises;
  \<^item> \<open>ValidationError\<close>, which a pydantic model raises when it is given \<open>None\<close> for a
    field of type \<open>str\<close>, with the name of the model and the names of those fields;
  \<^item> the four error classes of the services, each with its message;
  \<^item> \<open>OtherException\<close>, any other subclass of \<open>Exception\<close> that an external call
    (provider, HTTP client, JSON decoder, file system) may raise, with its text;
  \<^item> \<open>CancelledError\<close>, which asyncio raises at an \<open>await\<close> of a task that is being
    cancelled. It derives from \<open>BaseException\<close> and not from \<open>Exception\<close>.
  \<open>is_Exception\<close> is \<open>isinstance(exc, Exception)\<close>: what \<open>except Exception\<close> catches.
\<close>

datatype exc =
  KeyError string
| NoneToFloat
| ValidationError string "string list"
| TranscriptionError string
| DiarizationError string
| SummarizationError string
| TTSError string
| OtherException string
| CancelledError

fun is_Exception :: "exc \<Rightarrow> bool" where
  "is_Exception CancelledError = False"
| "is_Exception e = True"

section \<open>The job tracker \<open>PipelineState\<close> (backend/app/services/pipeline.py)\<close>

text \<open>
  The four dictionaries of \<open>PipelineState\<close>. A \<open>TranscriptResult\<close> is a mutable object
  that \<open>process_job\<close> keeps a reference to after storing it, so \<open>_transcripts\<close> holds
  references (indices into the object store of the world below), not values.
\<close>

type_synonym ref = nat

record PipelineState =
  jobs :: "string \<rightharpoonup> ProcessingStatus"
  transcripts :: "string \<rightharpoonup> ref"
  summaries :: "string \<rightharpoonup> SummaryResult"
  summary_audio :: "string \<rightharpoonup> string"

definition init_state :: PipelineState where
  "init_state = \<lparr>jobs = Map.empty, transcripts = Map.empty,
                 summaries = Map.empty, summary_audio = Map.empty\<rparr>"

text \<open>
  Every method that reads the clock takes the value that \<open>datetime.utcnow()\<close> returns
  in it as the argument \<open>now\<close>. A subscript \<open>self._jobs[job_id]\<close> on a missing key
  raises \<open>KeyError\<close>.
\<close>

definition create_status :: "PipelineState \<Rightarrow> string \<Rightarrow> datetime \<Rightarrow> ProcessingStatus \<times> PipelineState" where
  "create_status st jid now =
     (let status = \<lparr>job_id = jid, stage = UPLOADED, detail = None,
                     created_at = now, updated_at = now,
                     errors = [], assets = Map.empty\<rparr>
      in (status, st\<lparr>jobs := (jobs st)(jid \<mapsto> status)\<rparr>))"

definition update_stage ::
  "PipelineState \<Rightarrow> string \<Rightarrow> ProcessingStage \<Rightarrow> string option \<Rightarrow> datetime \<Rightarrow> exc + PipelineState" where
  "update_stage st jid stg det now =
     (case jobs st jid of
        None \<Rightarrow> Inl (KeyError jid)
      | Some status \<Rightarrow>
          Inr (st\<lparr>jobs := (jobs st)(jid \<mapsto>
                 status\<lparr>stage := stg, detail := det, updated_at := now\<rparr>)\<rparr>))"

definition add_error :: "PipelineState \<Rightarrow> string \<Rightarrow> string \<Rightarrow> datetime \<Rightarrow> exc + PipelineState" where
  "add_error st jid message now =
     (case jobs st jid of
        None \<Rightarrow> Inl (KeyError jid)
      | Some status \<Rightarrow>
          Inr (st\<lparr>jobs := (jobs st)(jid \<mapsto>
                 status\<lparr>errors := errors status @ [message], stage := FAILED,
                        updated_at := now\<rparr>)\<rparr>))"

definition store_transcript :: "PipelineState \<Rightarrow> string \<Rightarrow> ref \<Rightarrow> PipelineState" where
  "store_transcript st jid transcript = st\<lparr>transcripts := (transcripts st)(jid \<mapsto> transcript)\<rparr>"

definition store_summary :: "PipelineState \<Rightarrow> string \<Rightarrow> SummaryResult \<Rightarrow> PipelineState" where
  "store_summary st jid summary = st\<lparr>summaries := (summaries st)(jid \<mapsto> summary)\<rparr>"

definition store_summary_audio :: "PipelineState \<Rightarrow> string \<Rightarrow> string \<Rightarrow> PipelineState" where
  "store_summary_audio st jid path = st\<lparr>summary_audio := (summary_audio st)(jid \<mapsto> path)\<rparr>"

definition get :: "PipelineState \<Rightarrow> string \<Rightarrow> exc + ProcessingStatus" where
  "get st jid = (case jobs st jid of None \<Rightarrow> Inl (KeyError jid) | Some status \<Rightarrow> Inr status)"

text \<open>
  The statement \<open>pipeline_state.get(job_id).assets[name] = value\<close>, which
  \<open>process_job\<close> and \<open>register_audio_asset\<close> execute: it writes one entry of the
  job's \<open>assets\<close> dictionary and touches no other field.
\<close>

definition set_asset :: "PipelineState \<Rightarrow> string \<Rightarrow> string \<Rightarrow> string \<Rightarrow> exc + PipelineState" where
  "set_asset st jid name val =
     (case get st jid of
        Inl e \<Rightarrow> Inl e
      | Inr status \<Rightarrow>
          Inr (st\<lparr>jobs := (jobs st)(jid \<mapsto> status\<lparr>assets := (assets status)(name \<mapsto> val)\<rparr>)\<rparr>))"

section \<open>Artifact naming (backend/app/services/storage.py)\<close>

definition media_url :: "string \<Rightarrow> string \<Rightarrow> string" where
  "media_url jid filename = ''/media/'' @ jid @ ''/'' @ filename"

section \<open>Sequences of registry mutations\<close>

text \<open>
  The operations that mutate the record of an existing job, as data, so that a
  statement can range over every sequence of calls. Each is paired with the clock
  reading at the moment of the call. \<open>create_status\<close> is not among them: it makes a
  record, it does not mutate one. \<open>status_after\<close> reads a job's record from the
  outcome of an operation.
\<close>

datatype mutation =
  UpdateStage string ProcessingStage "string option"
| AddError string string
| SetAsset string string string
| StoreTranscript string ref
| StoreSummary string SummaryResult
| StoreSummaryAudio string string

fun apply_mutation :: "PipelineState \<Rightarrow> datetime \<times> mutation \<Rightarrow> exc + PipelineState" where
  "apply_mutation st (now, UpdateStage jid stg det) = update_stage st jid stg det now"
| "apply_mutation st (now, AddError jid message) = add_error st jid message now"
| "apply_mutation st (now, SetAsset jid name val) = set_asset st jid name val"
| "apply_mutation st (now, StoreTranscript jid r) = Inr (store_transcript st jid r)"
| "apply_mutation st (now, StoreSummary jid summary) = Inr (store_summary st jid summary)"
| "apply_mutation st (now, StoreSummaryAudio jid path) = Inr (store_summary_audio st jid path)"

fun run_mutations :: "PipelineState \<Rightarrow> (datetime \<times> mutation) list \<Rightarrow> exc + PipelineState" where
  "run_mutations st [] = Inr st"
| "run_mutations st (m # ms) =
     (case apply_mutation st m of Inl e \<Rightarrow> Inl e | Inr st' \<Rightarrow> run_mutations st' ms)"

fun status_after :: "exc + PipelineState \<Rightarrow> string \<Rightarrow> ProcessingStatus option" where
  "status_after (Inl e) jid = None"
| "status_after (Inr st) jid = jobs st jid"

section \<open>Diarization (backend/app/services/diarization.py)\<close>

text \<open>
  A value looked up in a dictionary that came from outside: the key is missing, or
  its value is \<open>None\<close>, or it has a value of the expected type. \<open>d.get(key, default)\<close>
  gives the default only for a missing key.
\<close>

datatype 'a field = Missing | Null | Present 'a

text \<open>
  A segment as Hoard returns it: a dictionary with the keys \<open>speaker\<close>, \<open>start\<close>, \<open>end\<close>
  and \<open>text\<close>.
\<close>

record Segment =
  seg_speaker :: "string field"
  seg_start :: "real field"
  seg_end :: "real field"
  seg_text :: "string field"

text \<open>
  A list comprehension whose element expression may raise: the first exception, in the
  order of the list, leaves the comprehension.
\<close>

fun collect :: "(exc + 'a) list \<Rightarrow> exc + 'a list" where
  "collect [] = Inr []"
| "collect (Inl e # rs) = Inl e"
| "collect (Inr x # rs) = (case collect rs of Inl e \<Rightarrow> Inl e | Inr xs \<Rightarrow> Inr (x # xs))"

text \<open>Python's \<open>str\<close> of a non-negative integer, for the f-string \<open>Speaker {index + 1}\<close>.\<close>

fun string_of_nat :: "nat \<Rightarrow> string" where
  "string_of_nat n =
     (if n < 10 then [''0123456789'' ! n]
      else string_of_nat (n div 10) @ [''0123456789'' ! (n mod 10)])"

declare string_of_nat.simps [simp del]

text \<open>
  The fallback branch of \<open>diarize\<close> (taken when the Hoard package cannot be imported):
  one output turn per input turn, with the pseudo speakers assigned round-robin.
\<close>

definition fallback_turn :: "nat \<times> SpeakerTurn \<Rightarrow> SpeakerTurn" where
  "fallback_turn p =
     (case p of (index, turn) \<Rightarrow>
        \<lparr>speaker = [''Speaker 1'', ''Speaker 2''] ! (index mod length [''Speaker 1'', ''Speaker 2'']),
         turn_start = turn_start turn, turn_end = turn_end turn, turn_text = turn_text turn\<rparr>)"

text \<open>
  The Hoard branch builds one turn per returned segment, with the defaults of
  \<open>dict.get\<close> for missing keys. The arguments of \<open>SpeakerTurn(...)\<close> are evaluated
  first, so a \<open>start\<close> or \<open>end\<close> that is \<open>None\<close> raises in \<open>float\<close>; then the model is
  validated, and a \<open>speaker\<close> or \<open>text\<close> that is \<open>None\<close> is rejected.
\<close>

definition segment_turn :: "nat \<times> Segment \<Rightarrow> exc + SpeakerTurn" where
  "segment_turn p =
     (case p of (index, segment) \<Rightarrow>
        if seg_start segment = Null \<or> seg_end segment = Null then Inl NoneToFloat
        else if seg_speaker segment = Null \<or> seg_text segment = Null
        then Inl (ValidationError ''SpeakerTurn''
                    ((if seg_speaker segment = Null then [''speaker''] else [])
                     @ (if seg_text segment = Null then [''text''] else [])))
        else
          Inr \<lparr>speaker = (case seg_speaker segment of
                             Present sp \<Rightarrow> sp
                           | _ \<Rightarrow> ''Speaker '' @ string_of_nat (index + 1)),
               turn_start = (case seg_start segment of Present x \<Rightarrow> x | _ \<Rightarrow> 0),
               turn_end = (case seg_end segment of Present x \<Rightarrow> x | _ \<Rightarrow> 0),
               turn_text = (case seg_text segment of Present t \<Rightarrow> t | _ \<Rightarrow> [])\<rparr>)"


text \<open>
  \<open>diarize\<close>. The argument \<open>hoard\<close> is \<open>None\<close> when \<open>HoardDiarizer\<close> is \<open>None\<close>, and
  otherwise the external call \<open>HoardDiarizer().run(audio_path, transcript)\<close>, which
  receives the audio path and the \<open>(start, end, text)\<close> of every turn and returns
  segments or raises.
\<close>

definition diarize ::
  "(string \<Rightarrow> (real \<times> real \<times> string) list \<Rightarrow> exc + Segment list) option \<Rightarrow>
   SpeakerTurn list \<Rightarrow> string \<Rightarrow> exc + SpeakerTurn list" where
  "diarize hoard transcript_turns audio_path =
     (case hoard of
        None \<Rightarrow> Inr (map fallback_turn (enumerate 0 transcript_turns))
      | Some run \<Rightarrow>
          (case run audio_path
                  (map (\<lambda>turn. (turn_start turn, turn_end turn, turn_text turn)) transcript_turns) of
             Inl e \<Rightarrow> Inl e
           | Inr diarized_segments \<Rightarrow>
               if diarized_segments = []
               then Inl (DiarizationError ''Hoard returned no diarization segments.'')
               else collect (map segment_turn (enumerate 0 diarized_segments))))"

section \<open>Summarization (backend/app/services/llm.py)\<close>

text \<open>
  The dictionary a provider returns. The keys \<open>overview\<close>, \<open>key_points\<close>,
  \<open>per_speaker\<close> and \<open>highlights\<close> are read with \<open>d.get(key) or default\<close>, which takes
  the default when the key is missing, when its value is \<open>None\<close> and when its value is
  empty: for them \<open>None\<close> stands for a missing key and for a \<open>None\<close> value alike. The
  key \<open>speaker\<close> of an item is read with \<open>item.get("speaker", "Unknown")\<close>.
\<close>

record SpeakerItem =
  item_speaker :: "string field"
  item_highlights :: "string list option"

record LLMResponse =
  resp_overview :: "string option"
  resp_key_points :: "string list option"
  resp_per_speaker :: "SpeakerItem list option"

text \<open>
  One element of the comprehension that builds \<open>per_speaker\<close>: a \<open>speaker\<close> that is
  \<open>None\<close> is rejected by the model \<open>SummarySection\<close>.
\<close>

definition summary_section :: "SpeakerItem \<Rightarrow> exc + SummarySection" where
  "summary_section item =
     (case item_speaker item of
        Null \<Rightarrow> Inl (ValidationError ''SummarySection'' [''speaker''])
      | Missing \<Rightarrow>
          Inr \<lparr>section_speaker = ''Unknown'',
               highlights = (case item_highlights item of None \<Rightarrow> [] | Some hs \<Rightarrow> hs)\<rparr>
      | Present sp \<Rightarrow>
          Inr \<lparr>section_speaker = sp,
               highlights = (case item_highlights item of None \<Rightarrow> [] | Some hs \<Rightarrow> hs)\<rparr>)"

text \<open>
  \<open>summarize\<close>. The argument \<open>provider\<close> is the configured provider call
  (\<open>_call_openai\<close>, \<open>_call_deepseek\<close>, \<open>_call_gemini\<close> or \<open>_call_custom\<close>). The source
  hands it the turns rendered as text, one line per turn; here it receives the turns.
\<close>

definition summarize ::
  "(SpeakerTurn list \<Rightarrow> exc + LLMResponse) \<Rightarrow> SpeakerTurn list \<Rightarrow> exc + SummaryResult" where
  "summarize provider transcript_turns =
     (if transcript_turns = [] then Inl (SummarizationError ''Transcript is empty.'')
      else
        (case provider transcript_turns of
           Inl e \<Rightarrow> Inl e
         | Inr response \<Rightarrow>
             (case collect (map summary_section
                      (case resp_per_speaker response of None \<Rightarrow> [] | Some items \<Rightarrow> items)) of
                Inl e \<Rightarrow> Inl e
              | Inr sections \<Rightarrow>
                  Inr \<lparr>overview =
                         (case resp_overview response of
                            None \<Rightarrow> ''Summary unavailable.''
                          | Some ov \<Rightarrow> if ov = [] then ''Summary unavailable.'' else ov),
                       per_speaker = sections,
                       key_points =
                         (case resp_key_points response of None \<Rightarrow> [] | Some ks \<Rightarrow> ks)\<rparr>)))"

section \<open>The world the pipeline runs in\<close>

text \<open>
  The external collaborators of one execution:
  \<^item> \<open>utcnow k\<close> is what the \<open>k\<close>-th call of \<open>datetime.utcnow()\<close> returns;
  \<^item> \<open>transcribe_audio\<close> is the transcription adapter, from the audio path to the
    language and the turns, or an exception;
  \<^item> \<open>hoard\<close> and \<open>llm_provider\<close> are the external calls inside \<open>diarize\<close> and
    \<open>summarize\<close>;
  \<^item> \<open>tts_provider\<close> is the provider call inside \<open>synthesize_tts\<close>, from the request to
    the audio bytes;
  \<^item> \<open>disk_error job name\<close> is the I/O error, if any, that writing file \<open>name\<close> of the
    job's directory raises;
  \<^item> \<open>transcript_json\<close> and \<open>summary_json\<close> are pydantic's \<open>.json(indent=2)\<close>;
  \<^item> \<open>repr_str\<close> is Python's \<open>repr\<close> of a string, \<open>none_to_float_text\<close> is the text of
    the \<open>TypeError\<close> of \<open>float(None)\<close>, and \<open>validation_text\<close> is the text pydantic
    gives a \<open>ValidationError\<close>, from the model's name and the rejected fields.
\<close>

record env =
  utcnow :: "nat \<Rightarrow> datetime"
  transcribe_audio :: "string \<Rightarrow> exc + (string \<times> SpeakerTurn list)"
  hoard :: "(string \<Rightarrow> (real \<times> real \<times> string) list \<Rightarrow> exc + Segment list) option"
  llm_provider :: "SpeakerTurn list \<Rightarrow> exc + LLMResponse"
  tts_provider :: "TTSRequest \<Rightarrow> exc + string"
  disk_error :: "string \<Rightarrow> string \<Rightarrow> exc option"
  transcript_json :: "TranscriptResult \<Rightarrow> string"
  summary_json :: "SummaryResult \<Rightarrow> string"
  repr_str :: "string \<Rightarrow> string"
  none_to_float_text :: string
  validation_text :: "string \<Rightarrow> string list \<Rightarrow> string"

text \<open>
  \<open>str_exc\<close> is Python's \<open>str(exc)\<close>: the message the exception was raised with; for a
  \<open>KeyError\<close> the \<open>repr\<close> of its key; for a \<open>CancelledError\<close> the empty string.
\<close>

fun str_exc :: "env \<Rightarrow> exc \<Rightarrow> string" where
  "str_exc ev (KeyError k) = repr_str ev k"
| "str_exc ev NoneToFloat = none_to_float_text ev"
| "str_exc ev (ValidationError model names) = validation_text ev model names"
| "str_exc ev (TranscriptionError m) = m"
| "str_exc ev (DiarizationError m) = m"
| "str_exc ev (SummarizationError m) = m"
| "str_exc ev (TTSError m) = m"
| "str_exc ev (OtherException m) = m"
| "str_exc ev CancelledError = []"

text \<open>
  What an observer of the registry can see happen during a run, in program order: a
  write to a job's \<open>stage\<close>, and the invocation of a stage adapter for a job. Each
  event carries the stage that the registry holds for the job at that moment (\<open>None\<close>
  if it holds no such job): for a write, the stage read back from the registry right
  after the write; for an invocation, the stage in the registry when the adapter is
  called. The source keeps no such log; the field \<open>trace\<close> of the world records it so
  that statements about the order of writes and calls can be made.
\<close>

datatype adapter = Transcribe | Diarize | Summarize | Synthesize

datatype event =
  StageSet string "ProcessingStage option"
| Invoke string adapter "ProcessingStage option"

definition stage_in :: "PipelineState \<Rightarrow> string \<Rightarrow> ProcessingStage option" where
  "stage_in st jid = map_option stage (jobs st jid)"

text \<open>
  The mutable state: the module-level singleton \<open>pipeline_state\<close>; the
  \<open>TranscriptResult\<close> objects, a reference being an index into \<open>objects\<close>; the results
  directory, which maps a job id to the files of the job's directory (name and content,
  in listing order) once the directory exists; the number of clock readings made so
  far; and the trace.
\<close>

record world =
  pipeline_state :: PipelineState
  objects :: "TranscriptResult list"
  results_dir :: "string \<rightharpoonup> (string \<times> string) list"
  clock_reads :: nat
  trace :: "event list"

definition init_world :: world where
  "init_world = \<lparr>pipeline_state = init_state, objects = [], results_dir = Map.empty,
                 clock_reads = 0, trace = []\<rparr>"

text \<open>
  A step of the program takes the world and returns the new world together with its
  value or the exception it raised. What a step did before it raised stays done.
  \<open>and_then\<close> is sequencing: the second step runs only if the first did not raise.
\<close>

type_synonym 'a action = "world \<Rightarrow> (exc + 'a) \<times> world"

definition and_then :: "'a action \<Rightarrow> ('a \<Rightarrow> 'b action) \<Rightarrow> 'b action" where
  "and_then m f w = (case m w of (Inl e, w') \<Rightarrow> (Inl e, w') | (Inr a, w') \<Rightarrow> f a w')"

text \<open>The methods of the singleton, reading the clock where the method does.\<close>

definition run_create_status :: "env \<Rightarrow> string \<Rightarrow> ProcessingStatus action" where
  "run_create_status ev jid w =
     (case create_status (pipeline_state w) jid (utcnow ev (clock_reads w)) of
        (status, st) \<Rightarrow> (Inr status, w\<lparr>pipeline_state := st, clock_reads := Suc (clock_reads w)\<rparr>))"

definition run_update_stage ::
  "env \<Rightarrow> string \<Rightarrow> ProcessingStage \<Rightarrow> string option \<Rightarrow> unit action" where
  "run_update_stage ev jid stg det w =
     (case update_stage (pipeline_state w) jid stg det (utcnow ev (clock_reads w)) of
        Inl e \<Rightarrow> (Inl e, w)
      | Inr st \<Rightarrow> (Inr (), w\<lparr>pipeline_state := st, clock_reads := Suc (clock_reads w),
                            trace := trace w @ [StageSet jid (stage_in st jid)]\<rparr>))"

definition run_add_error :: "env \<Rightarrow> string \<Rightarrow> string \<Rightarrow> unit action" where
  "run_add_error ev jid message w =
     (case add_error (pipeline_state w) jid message (utcnow ev (clock_reads w)) of
        Inl e \<Rightarrow> (Inl e, w)
      | Inr st \<Rightarrow> (Inr (), w\<lparr>pipeline_state := st, clock_reads := Suc (clock_reads w),
                            trace := trace w @ [StageSet jid (stage_in st jid)]\<rparr>))"

definition run_store_transcript :: "string \<Rightarrow> ref \<Rightarrow> unit action" where
  "run_store_transcript jid transcript w =
     (Inr (), w\<lparr>pipeline_state := store_transcript (pipeline_state w) jid transcript\<rparr>)"

definition run_store_summary :: "string \<Rightarrow> SummaryResult \<Rightarrow> unit action" where
  "run_store_summary jid summary w =
     (Inr (), w\<lparr>pipeline_state := store_summary (pipeline_state w) jid summary\<rparr>)"

definition run_store_summary_audio :: "string \<Rightarrow> string \<Rightarrow> unit action" where
  "run_store_summary_audio jid path w =
     (Inr (), w\<lparr>pipeline_state := store_summary_audio (pipeline_state w) jid path\<rparr>)"

definition run_set_asset :: "string \<Rightarrow> string \<Rightarrow> string \<Rightarrow> unit action" where
  "run_set_asset jid name val w =
     (case set_asset (pipeline_state w) jid name val of
        Inl e \<Rightarrow> (Inl e, w)
      | Inr st \<Rightarrow> (Inr (), w\<lparr>pipeline_state := st\<rparr>))"

definition run_get :: "string \<Rightarrow> ProcessingStatus action" where
  "run_get jid w = (get (pipeline_state w) jid, w)"

text \<open>
  \<open>TranscriptResult(language=..., turns=...)\<close> makes a new object; \<open>transcript.turns\<close>
  reads it and \<open>transcript.turns = ...\<close> writes it through the reference, so every
  holder of the reference sees the new turns.
\<close>

definition new_transcript :: "TranscriptResult \<Rightarrow> ref action" where
  "new_transcript t w = (Inr (length (objects w)), w\<lparr>objects := objects w @ [t]\<rparr>)"

definition read_transcript :: "ref \<Rightarrow> TranscriptResult action" where
  "read_transcript r w = (Inr (objects w ! r), w)"

definition assign_turns :: "ref \<Rightarrow> SpeakerTurn list \<Rightarrow> unit action" where
  "assign_turns r ts w = (Inr (), w\<lparr>objects := (objects w)[r := (objects w ! r)\<lparr>turns := ts\<rparr>]\<rparr>)"

text \<open>
  \<open>returning\<close> is a step that changes nothing and has the given outcome: a \<open>return\<close>,
  or the outcome of a call that has no effect on the world. \<open>invoke\<close> is the call of
  a stage adapter: the call is recorded in the trace, with the stage the registry holds
  for the job, then the adapter runs.
\<close>

definition returning :: "exc + 'a \<Rightarrow> 'a action" where
  "returning outcome w = (outcome, w)"

definition invoke :: "string \<Rightarrow> adapter \<Rightarrow> 'a action \<Rightarrow> 'a action" where
  "invoke jid a call w =
     call (w\<lparr>trace := trace w @ [Invoke jid a (stage_in (pipeline_state w) jid)]\<rparr>)"

section \<open>Artifact store (backend/app/services/storage.py)\<close>

text \<open>
  \<open>get_job_dir\<close> makes the job's directory if it does not exist (\<open>mkdir\<close> with
  \<open>exist_ok\<close>) and returns it; it looks nothing up in the registry and raises no
  \<open>KeyError\<close>. A path inside a job's directory is modelled by its file name.
\<close>

definition get_job_dir :: "string \<Rightarrow> (string \<times> string) list action" where
  "get_job_dir jid w =
     (case results_dir w jid of
        None \<Rightarrow> (Inr [], w\<lparr>results_dir := (results_dir w)(jid \<mapsto> [])\<rparr>)
      | Some files \<Rightarrow> (Inr files, w))"

fun write_file :: "(string \<times> string) list \<Rightarrow> string \<Rightarrow> string \<Rightarrow> (string \<times> string) list" where
  "write_file [] name content = [(name, content)]"
| "write_file ((n, c) # files) name content =
     (if n = name then (n, content) # files else (n, c) # write_file files name content)"

definition save_text :: "env \<Rightarrow> string \<Rightarrow> string \<Rightarrow> string \<Rightarrow> string action" where
  "save_text ev jid name content =
     and_then (get_job_dir jid) (\<lambda>job_dir w.
       case disk_error ev jid name of
         Some e \<Rightarrow> (Inl e, w)
       | None \<Rightarrow> (Inr name, w\<lparr>results_dir := (results_dir w)(jid \<mapsto> write_file job_dir name content)\<rparr>))"

definition save_binary :: "env \<Rightarrow> string \<Rightarrow> string \<Rightarrow> string \<Rightarrow> string action" where
  "save_binary ev jid name data =
     and_then (get_job_dir jid) (\<lambda>job_dir w.
       case disk_error ev jid name of
         Some e \<Rightarrow> (Inl e, w)
       | None \<Rightarrow> (Inr name, w\<lparr>results_dir := (results_dir w)(jid \<mapsto> write_file job_dir name data)\<rparr>))"

section \<open>Speech synthesis (backend/app/services/tts.py)\<close>

text \<open>
  \<open>synthesize_tts\<close>: the configured provider produces the audio bytes or raises
  (\<open>TTSError\<close> when no provider is configured), and every provider branch ends by
  saving them as \<open>summary.mp3\<close> through \<open>save_binary\<close>.
\<close>

definition synthesize_tts :: "env \<Rightarrow> TTSRequest \<Rightarrow> string action" where
  "synthesize_tts ev request =
     and_then (returning (tts_provider ev request)) (\<lambda>audio_bytes.
       save_binary ev (tts_job_id request) ''summary.mp3'' audio_bytes)"

section \<open>The pipeline (backend/app/services/pipeline.py)\<close>

text \<open>
  The body of the \<open>try\<close> block of \<open>process_job\<close>, in four blocks and the final
  \<open>update_stage\<close>; the local variable \<open>transcript\<close> is a reference.
  \<^item> \<open>transcribe_block\<close>: from \<open>update_stage(TRANSCRIBING)\<close> to the \<open>transcript\<close> asset.
  \<^item> \<open>diarize_block\<close>: from \<open>update_stage(DIARIZING)\<close> to the \<open>diarized_transcript\<close> asset.
  \<^item> \<open>summarize_block\<close>: from \<open>update_stage(SUMMARIZING)\<close> to the \<open>summary\<close> asset.
  \<^item> \<open>tts_block\<close>: the body of \<open>if enable_tts\<close>.
\<close>

definition transcribe_block :: "env \<Rightarrow> string \<Rightarrow> string \<Rightarrow> ref action" where
  "transcribe_block ev jid audio_path =
     and_then (run_update_stage ev jid TRANSCRIBING (Some ''Running transcription'')) (\<lambda>_.
     and_then (invoke jid Transcribe (returning (transcribe_audio ev audio_path))) (\<lambda>(lang, ts).
     and_then (new_transcript \<lparr>language = Some lang, duration = None, turns = ts\<rparr>) (\<lambda>transcript.
     and_then (run_store_transcript jid transcript) (\<lambda>_.
     and_then (read_transcript transcript) (\<lambda>t.
     and_then (save_text ev jid ''transcript.json'' (transcript_json ev t)) (\<lambda>transcript_path.
     and_then (run_set_asset jid ''transcript'' (media_url jid transcript_path)) (\<lambda>_.
     returning (Inr transcript))))))))"

definition diarize_block :: "env \<Rightarrow> string \<Rightarrow> string \<Rightarrow> ref \<Rightarrow> unit action" where
  "diarize_block ev jid audio_path transcript =
     and_then (run_update_stage ev jid DIARIZING (Some ''Applying Hoard diarization'')) (\<lambda>_.
     and_then (read_transcript transcript) (\<lambda>t.
     and_then (invoke jid Diarize (returning (diarize (hoard ev) (turns t) audio_path))) (\<lambda>diarized_turns.
     and_then (assign_turns transcript diarized_turns) (\<lambda>_.
     and_then (read_transcript transcript) (\<lambda>t'.
     and_then (save_text ev jid ''diarized.json'' (transcript_json ev t')) (\<lambda>diarized_path.
     run_set_asset jid ''diarized_transcript'' (media_url jid diarized_path)))))))"

definition summarize_block :: "env \<Rightarrow> string \<Rightarrow> ref \<Rightarrow> SummaryResult action" where
  "summarize_block ev jid transcript =
     and_then (run_update_stage ev jid SUMMARIZING (Some ''Generating LLM summary'')) (\<lambda>_.
     and_then (read_transcript transcript) (\<lambda>t.
     and_then (invoke jid Summarize (returning (summarize (llm_provider ev) (turns t)))) (\<lambda>summary.
     and_then (run_store_summary jid summary) (\<lambda>_.
     and_then (save_text ev jid ''summary.json'' (summary_json ev summary)) (\<lambda>summary_path.
     and_then (run_set_asset jid ''summary'' (media_url jid summary_path)) (\<lambda>_.
     returning (Inr summary)))))))"

definition tts_block :: "env \<Rightarrow> string \<Rightarrow> SummaryResult \<Rightarrow> unit action" where
  "tts_block ev jid summary =
     and_then (run_update_stage ev jid TTS (Some ''Synthesizing summary audio'')) (\<lambda>_.
     and_then (invoke jid Synthesize
                 (synthesize_tts ev \<lparr>tts_job_id = jid, tts_text = overview summary, voice = None\<rparr>))
       (\<lambda>summary_audio_path.
     run_store_summary_audio jid (media_url jid summary_audio_path)))"

definition process_job_try :: "env \<Rightarrow> string \<Rightarrow> string \<Rightarrow> bool \<Rightarrow> unit action" where
  "process_job_try ev jid audio_path with_tts =
     and_then (transcribe_block ev jid audio_path) (\<lambda>transcript.
     and_then (diarize_block ev jid audio_path transcript) (\<lambda>_.
     and_then (summarize_block ev jid transcript) (\<lambda>summary.
     and_then (if with_tts then tts_block ev jid summary else returning (Inr ())) (\<lambda>_.
     run_update_stage ev jid COMPLETED (Some ''Processing complete'')))))"

text \<open>
  \<open>process_job\<close>: the \<open>try\<close> block; \<open>except Exception\<close> catches the exceptions of class
  \<open>Exception\<close> and calls \<open>add_error\<close> with the exception's text; then
  \<open>return pipeline_state.get(job_id)\<close>. An exception that is not of class \<open>Exception\<close>,
  and an exception raised by the handler or by the final \<open>get\<close>, leaves the function.
\<close>

definition process_job :: "env \<Rightarrow> string \<Rightarrow> string \<Rightarrow> bool \<Rightarrow> ProcessingStatus action" where
  "process_job ev jid audio_path with_tts w =
     (case process_job_try ev jid audio_path with_tts w of
        (Inl ex, w1) \<Rightarrow>
          if is_Exception ex
          then and_then (run_add_error ev jid (str_exc ev ex)) (\<lambda>_. run_get jid) w1
          else (Inl ex, w1)
      | (Inr u, w1) \<Rightarrow> run_get jid w1)"



section \<open>The process endpoint (backend/app/main.py)\<close>

text \<open>
  The outcome of a request handler that does not return its response: an
  \<open>HTTPException\<close> with its status code and detail, or an exception nothing catches,
  which the server answers with status 500.
\<close>

datatype http_error = HTTPException nat string | Unhandled exc

text \<open>The arguments of one \<open>launch_background\<close> call handed to \<open>background_tasks.add_task\<close>.\<close>

record BackgroundTask =
  task_job_id :: string
  task_audio_path :: string
  task_enable_tts :: bool

definition register_audio_asset :: "string \<Rightarrow> string \<Rightarrow> unit action" where
  "register_audio_asset jid filename = run_set_asset jid ''source_audio'' (media_url jid filename)"

definition ensure_job :: "string \<Rightarrow> ProcessingStatus action" where
  "ensure_job jid = run_get jid"

text \<open>
  \<open>start_processing\<close>. The directory comes from \<open>get_job_dir\<close>; a \<open>KeyError\<close> from it is
  answered with 404. \<open>job_dir.glob("source.*")\<close> lists the files of the directory whose
  name starts with \<open>source.\<close>; with none the answer is 400. Otherwise the first one is
  the audio path, a \<open>launch_background\<close> task is added, and the job's status is looked
  up with \<open>ensure_job\<close>, whose \<open>KeyError\<close> nothing catches. The tasks added run only
  after a response has been returned.
\<close>

definition glob_source :: "(string \<times> string) list \<Rightarrow> string list" where
  "glob_source job_dir = filter (prefix ''source.'') (map fst job_dir)"

definition start_processing ::
  "ProcessRequest \<Rightarrow> world \<Rightarrow> (http_error + ProcessResponse \<times> BackgroundTask list) \<times> world" where
  "start_processing request w =
     (case get_job_dir (req_job_id request) w of
        (Inl (KeyError k), w1) \<Rightarrow> (Inl (HTTPException 404 ''Job not found''), w1)
      | (Inl e, w1) \<Rightarrow> (Inl (Unhandled e), w1)
      | (Inr job_dir, w1) \<Rightarrow>
          (let audio_candidates = glob_source job_dir in
           if audio_candidates = []
           then (Inl (HTTPException 400 ''Audio source not available for processing.''), w1)
           else
             (let audio_path = hd audio_candidates;
                  task = \<lparr>task_job_id = req_job_id request, task_audio_path = audio_path,
                          task_enable_tts = enable_tts request\<rparr>
              in case ensure_job (req_job_id request) w1 of
                   (Inl e, w2) \<Rightarrow> (Inl (Unhandled e), w2)
                 | (Inr status, w2) \<Rightarrow>
                     (Inr (\<lparr>resp_job_id = req_job_id request, resp_status = status\<rparr>, [task]), w2))))"

text \<open>
  \<open>launch_background\<close> creates a task that runs \<open>process_job\<close>; nothing reads the
  task's result. Run to its end without another task in between, it changes the world
  as \<open>process_job\<close> does.
\<close>

definition launch_background :: "env \<Rightarrow> BackgroundTask \<Rightarrow> world \<Rightarrow> world" where
  "launch_background ev task w =
     snd (process_job ev (task_job_id task) (task_audio_path task) (task_enable_tts task) w)"

section \<open>Runs as tasks of the event loop\<close>

text \<open>
  \<open>launch_background\<close> hands \<open>process_job\<close> to \<open>asyncio.create_task\<close>. A task runs
  without interruption from one \<open>await\<close> to the next; while it waits for an awaited
  stage adapter, other tasks of the loop run. \<open>suspended\<close> is where a run of
  \<open>process_job\<close> waits: not yet started, at the \<open>await\<close> of one of the four adapters,
  or returned. The arguments of an adapter are evaluated when it is called, and the
  adapters of \<open>env\<close> are functions of their arguments, so the state of a waiting run
  carries the outcome that the adapter will deliver (for the synthesizer, which writes
  \<open>summary.mp3\<close> when it completes, the summary it was called with), together with the
  local variables of \<open>process_job\<close> that are still needed.

  \<open>segment\<close> is the code of \<open>process_job\<close> from one suspension to the next, and
  \<open>resume\<close> runs one segment, with the \<open>except\<close> clause in case the segment raises;
  the value of the final \<open>pipeline_state.get\<close>, or the exception that leaves the run,
  goes to nobody. \<open>run_schedule\<close> runs a
  list of tasks in the order in which a schedule picks them, one segment per pick;
  \<open>resume_times n\<close> resumes one task \<open>n\<close> times in a row. \<open>active\<close> holds of a run
  that has started and not returned.
\<close>

datatype suspended =
  NotStarted
| AwaitTranscribe "exc + (string \<times> SpeakerTurn list)"
| AwaitDiarize ref "exc + SpeakerTurn list"
| AwaitSummarize "exc + SummaryResult"
| AwaitSynthesize SummaryResult
| Returned

fun segment :: "env \<Rightarrow> BackgroundTask \<Rightarrow> suspended \<Rightarrow> suspended action" where
  "segment ev task NotStarted =
     and_then (run_update_stage ev (task_job_id task) TRANSCRIBING (Some ''Running transcription'')) (\<lambda>_.
     invoke (task_job_id task) Transcribe
       (returning (Inr (AwaitTranscribe (transcribe_audio ev (task_audio_path task))))))"
| "segment ev task (AwaitTranscribe outcome) =
     and_then (returning outcome) (\<lambda>(lang, ts).
     and_then (new_transcript \<lparr>language = Some lang, duration = None, turns = ts\<rparr>) (\<lambda>transcript.
     and_then (run_store_transcript (task_job_id task) transcript) (\<lambda>_.
     and_then (read_transcript transcript) (\<lambda>t.
     and_then (save_text ev (task_job_id task) ''transcript.json'' (transcript_json ev t)) (\<lambda>transcript_path.
     and_then (run_set_asset (task_job_id task) ''transcript'' (media_url (task_job_id task) transcript_path)) (\<lambda>_.
     and_then (run_update_stage ev (task_job_id task) DIARIZING (Some ''Applying Hoard diarization'')) (\<lambda>_.
     and_then (read_transcript transcript) (\<lambda>t'.
     invoke (task_job_id task) Diarize
       (returning (Inr (AwaitDiarize transcript
          (diarize (hoard ev) (turns t') (task_audio_path task)))))))))))))"
| "segment ev task (AwaitDiarize transcript outcome) =
     and_then (returning outcome) (\<lambda>diarized_turns.
     and_then (assign_turns transcript diarized_turns) (\<lambda>_.
     and_then (read_transcript transcript) (\<lambda>t.
     and_then (save_text ev (task_job_id task) ''diarized.json'' (transcript_json ev t)) (\<lambda>diarized_path.
     and_then (run_set_asset (task_job_id task) ''diarized_transcript'' (media_url (task_job_id task) diarized_path)) (\<lambda>_.
     and_then (run_update_stage ev (task_job_id task) SUMMARIZING (Some ''Generating LLM summary'')) (\<lambda>_.
     and_then (read_transcript transcript) (\<lambda>t'.
     invoke (task_job_id task) Summarize
       (returning (Inr (AwaitSummarize (summarize (llm_provider ev) (turns t'))))))))))))"
| "segment ev task (AwaitSummarize outcome) =
     and_then (returning outcome) (\<lambda>summary.
     and_then (run_store_summary (task_job_id task) summary) (\<lambda>_.
     and_then (save_text ev (task_job_id task) ''summary.json'' (summary_json ev summary)) (\<lambda>summary_path.
     and_then (run_set_asset (task_job_id task) ''summary'' (media_url (task_job_id task) summary_path)) (\<lambda>_.
     (if task_enable_tts task
      then and_then (run_update_stage ev (task_job_id task) TTS (Some ''Synthesizing summary audio''))
             (\<lambda>_. invoke (task_job_id task) Synthesize (returning (Inr (AwaitSynthesize summary))))
      else and_then (run_update_stage ev (task_job_id task) COMPLETED (Some ''Processing complete''))
             (\<lambda>_. returning (Inr Returned)))))))"
| "segment ev task (AwaitSynthesize summary) =
     and_then (synthesize_tts ev \<lparr>tts_job_id = task_job_id task, tts_text = overview summary, voice = None\<rparr>) (\<lambda>summary_audio_path.
     and_then (run_store_summary_audio (task_job_id task) (media_url (task_job_id task) summary_audio_path)) (\<lambda>_.
     and_then (run_update_stage ev (task_job_id task) COMPLETED (Some ''Processing complete'')) (\<lambda>_.
     returning (Inr Returned))))"
| "segment ev task Returned = returning (Inr Returned)"

definition resume :: "env \<Rightarrow> BackgroundTask \<Rightarrow> suspended \<Rightarrow> world \<Rightarrow> suspended \<times> world" where
  "resume ev task st w =
     (case segment ev task st w of
        (Inl ex, w1) \<Rightarrow>
          (Returned,
           if is_Exception ex then snd (run_add_error ev (task_job_id task) (str_exc ev ex) w1)
           else w1)
      | (Inr st', w1) \<Rightarrow> (st', w1))"

fun resume_times :: "nat \<Rightarrow> env \<Rightarrow> BackgroundTask \<Rightarrow> suspended \<times> world \<Rightarrow> suspended \<times> world" where
  "resume_times 0 ev task p = p"
| "resume_times (Suc n) ev task p = resume_times n ev task (resume ev task (fst p) (snd p))"

fun run_schedule ::
  "env \<Rightarrow> nat list \<Rightarrow> (BackgroundTask \<times> suspended) list \<times> world \<Rightarrow>
   (BackgroundTask \<times> suspended) list \<times> world" where
  "run_schedule ev [] p = p"
| "run_schedule ev (i # is) (tasks, w) =
     (if i < length tasks
      then (case resume ev (fst (tasks ! i)) (snd (tasks ! i)) w of
              (st', w') \<Rightarrow> run_schedule ev is (tasks[i := (fst (tasks ! i), st')], w'))
      else run_schedule ev is (tasks, w))"

fun active :: "suspended \<Rightarrow> bool" where
  "active NotStarted = False"
| "active Returned = False"
| "active (AwaitTranscribe outcome) = True"
| "active (AwaitDiarize transcript outcome) = True"
| "active (AwaitSummarize outcome) = True"
| "active (AwaitSynthesize summary) = True"

section \<open>Reading the trace\<close>

text \<open>
  \<open>stage_of\<close> is the stage that \<open>process_job\<close> enters for an adapter.
  \<open>entered_before_invoked\<close> holds of a list of events when every adapter invocation in
  it comes directly after a write to the stage of the same job, the registry holds the
  adapter's stage for the job right after that write, and it still holds it when the
  adapter is called. \<open>stages_written\<close> is the list of the stages that the registry held
  right after each write, in order.
\<close>

fun stage_of :: "adapter \<Rightarrow> ProcessingStage" where
  "stage_of Transcribe = TRANSCRIBING"
| "stage_of Diarize = DIARIZING"
| "stage_of Summarize = SUMMARIZING"
| "stage_of Synthesize = TTS"

fun entered_before_invoked :: "event list \<Rightarrow> bool" where
  "entered_before_invoked [] = True"
| "entered_before_invoked (Invoke j a seen # es) = False"
| "entered_before_invoked [StageSet j stg] = True"
| "entered_before_invoked (StageSet j stg # Invoke j' a seen # es) =
     (j' = j \<and> stg = Some (stage_of a) \<and> seen = Some (stage_of a) \<and> entered_before_invoked es)"
| "entered_before_invoked (StageSet j stg # StageSet j' stg' # es) =
     entered_before_invoked (StageSet j' stg' # es)"

fun stages_written :: "event list \<Rightarrow> ProcessingStage option list" where
  "stages_written [] = []"
| "stages_written (StageSet j stg # es) = stg # stages_written es"
| "stages_written (Invoke j a seen # es) = stages_written es"

text \<open>The events of a run of the try block that completes.\<close>

definition try_events :: "string \<Rightarrow> bool \<Rightarrow> event list" where
  "try_events jid with_tts =
     [StageSet jid (Some TRANSCRIBING), Invoke jid Transcribe (Some TRANSCRIBING),
      StageSet jid (Some DIARIZING), Invoke jid Diarize (Some DIARIZING),
      StageSet jid (Some SUMMARIZING), Invoke jid Summarize (Some SUMMARIZING)]
     @ (if with_tts then [StageSet jid (Some TTS), Invoke jid Synthesize (Some TTS)] else [])
     @ [StageSet jid (Some COMPLETED)]"

section \<open>The first failure of a run\<close>

text \<open>
  \<open>first_failure\<close> is not part of the program; it is what the outcome of
  \<open>process_job\<close> is compared with. It goes through the adapter calls and artifact
  writes of a pipeline run in their order (transcription, \<open>transcript.json\<close>,
  diarization, \<open>diarized.json\<close>, summarization, \<open>summary.json\<close>, and with the flag set
  speech synthesis and \<open>summary.mp3\<close>), each adapter with the input that the stage
  before it produced, and returns the first exception that one of them raises, or
  \<open>None\<close> when none of them raises.
\<close>

definition first_failure :: "env \<Rightarrow> string \<Rightarrow> string \<Rightarrow> bool \<Rightarrow> exc option" where
  "first_failure ev jid audio_path with_tts =
     (case transcribe_audio ev audio_path of
        Inl e \<Rightarrow> Some e
      | Inr (lang, ts) \<Rightarrow>
     (case disk_error ev jid ''transcript.json'' of
        Some e \<Rightarrow> Some e
      | None \<Rightarrow>
     (case diarize (hoard ev) ts audio_path of
        Inl e \<Rightarrow> Some e
      | Inr diarized_turns \<Rightarrow>
     (case disk_error ev jid ''diarized.json'' of
        Some e \<Rightarrow> Some e
      | None \<Rightarrow>
     (case summarize (llm_provider ev) diarized_turns of
        Inl e \<Rightarrow> Some e
      | Inr summary \<Rightarrow>
     (case disk_error ev jid ''summary.json'' of
        Some e \<Rightarrow> Some e
      | None \<Rightarrow>
          if with_tts
          then (case tts_provider ev \<lparr>tts_job_id = jid, tts_text = overview summary, voice = None\<rparr> of
                  Inl e \<Rightarrow> Some e
                | Inr audio_bytes \<Rightarrow> disk_error ev jid ''summary.mp3'')
          else None))))))"

section \<open>An example job and its collaborators\<close>

text \<open>
  A three-turn transcript, a summarizer and a synthesizer that succeed, a disk that
  never fails, a clock whose \<open>k\<close>-th reading is \<open>k\<close>, and stand-ins for the three
  texts of the Python runtime (\<open>stub_repr\<close> is \<open>repr\<close> on strings of letters and
  digits). \<open>example_world\<close> is the world
  after job \<open>j\<close> was created at time 0 and its audio uploaded as \<open>source.mp3\<close>.
  \<open>failing_transcribe\<close> is a transcription adapter that raises.
\<close>

definition example_turns :: "SpeakerTurn list" where
  "example_turns =
     [\<lparr>speaker = ''A'', turn_start = 0, turn_end = 1, turn_text = ''hi''\<rparr>,
      \<lparr>speaker = ''B'', turn_start = 1, turn_end = 2, turn_text = ''there''\<rparr>,
      \<lparr>speaker = ''A'', turn_start = 2, turn_end = 3, turn_text = ''bye''\<rparr>]"

definition stub_transcribe :: "string \<Rightarrow> exc + (string \<times> SpeakerTurn list)" where
  "stub_transcribe audio_path = Inr (''en'', example_turns)"

definition stub_llm :: "SpeakerTurn list \<Rightarrow> exc + LLMResponse" where
  "stub_llm ts =
     Inr \<lparr>resp_overview = Some ''test'', resp_key_points = Some [''k1''],
          resp_per_speaker =
            Some [\<lparr>item_speaker = Present ''Speaker 1'', item_highlights = Some [''hi'', ''bye'']\<rparr>]\<rparr>"

definition stub_tts :: "TTSRequest \<Rightarrow> exc + string" where
  "stub_tts request = Inr ''mp3''"

definition no_disk_error :: "string \<Rightarrow> string \<Rightarrow> exc option" where
  "no_disk_error jid name = None"

definition stub_transcript_json :: "TranscriptResult \<Rightarrow> string" where
  "stub_transcript_json t = ''{transcript}''"

definition stub_summary_json :: "SummaryResult \<Rightarrow> string" where
  "stub_summary_json t = ''{summary}''"

definition stub_repr :: "string \<Rightarrow> string" where
  "stub_repr k = [CHR 0x27] @ k @ [CHR 0x27]"

definition stub_validation_text :: "string \<Rightarrow> string list \<Rightarrow> string" where
  "stub_validation_text model names = ''validation error for '' @ model"

definition example_env :: env where
  "example_env =
     \<lparr>utcnow = int, transcribe_audio = stub_transcribe, hoard = None, llm_provider = stub_llm,
      tts_provider = stub_tts, disk_error = no_disk_error,
      transcript_json = stub_transcript_json, summary_json = stub_summary_json,
      repr_str = stub_repr,
      none_to_float_text = ''float() argument must be a string or a real number'',
      validation_text = stub_validation_text\<rparr>"

definition example_world :: world where
  "example_world =
     \<lparr>pipeline_state = init_state\<lparr>jobs :=
        [''j'' \<mapsto> \<lparr>job_id = ''j'', stage = UPLOADED, detail = None, created_at = 0,
                   updated_at = 0, errors = [],
                   assets = [''source_audio'' \<mapsto> ''/media/j/source.mp3'']\<rparr>]\<rparr>,
      objects = [], results_dir = [''j'' \<mapsto> [(''source.mp3'', ''audio'')]],
      clock_reads = 1, trace = []\<rparr>"




definition silent_transcribe :: "string \<Rightarrow> exc + (string \<times> SpeakerTurn list)" where
  "silent_transcribe audio_path = Inr (''en'', [])"

text \<open>
  A summarizer provider and a synthesizer provider that raise, a transcription that
  is cancelled while it is awaited, and a Hoard one of whose two segments has \<open>None\<close>
  for its speaker.
\<close>

definition failing_llm :: "SpeakerTurn list \<Rightarrow> exc + LLMResponse" where
  "failing_llm ts = Inl (SummarizationError ''OpenAI API key not configured.'')"


definition cancelled_transcribe :: "string \<Rightarrow> exc + (string \<times> SpeakerTurn list)" where
  "cancelled_transcribe audio_path = Inl CancelledError"


text \<open>A request to process job \<open>j\<close> without speech synthesis, and the task it schedules.\<close>

definition example_request :: ProcessRequest where
  "example_request = \<lparr>req_job_id = ''j'', enable_tts = False\<rparr>"

definition example_task :: BackgroundTask where
  "example_task = \<lparr>task_job_id = ''j'', task_audio_path = ''source.mp3'', task_enable_tts = False\<rparr>"

section \<open>Properties of the job tracker\<close>

lemma update_stage_present:
  "jobs st jid = Some s \<Longrightarrow>
   update_stage st jid stg det now =
     Inr (st\<lparr>jobs := (jobs st)(jid \<mapsto> s\<lparr>stage := stg, detail := det, updated_at := now\<rparr>)\<rparr>)"
  by (simp add: update_stage_def)

lemma add_error_present:
  "jobs st jid = Some s \<Longrightarrow>
   add_error st jid m now =
     Inr (st\<lparr>jobs := (jobs st)(jid \<mapsto>
            s\<lparr>errors := errors s @ [m], stage := FAILED, updated_at := now\<rparr>)\<rparr>)"
  by (simp add: add_error_def)

lemma set_asset_present:
  "jobs st jid = Some s \<Longrightarrow>
   set_asset st jid name val =
     Inr (st\<lparr>jobs := (jobs st)(jid \<mapsto> s\<lparr>assets := (assets s)(name \<mapsto> val)\<rparr>)\<rparr>)"
  by (simp add: set_asset_def get_def)

text \<open>
  One mutation, on whichever job, keeps every job of the registry present, keeps or
  extends its errors, and moves its \<open>updated_at\<close> either nowhere or to the clock
  reading of the call.
\<close>

lemma apply_mutation_step:
  assumes "jobs st jid = Some s" and "apply_mutation st (now, m) = Inr st'"
  shows "\<exists>s'. jobs st' jid = Some s' \<and> prefix (errors s) (errors s')
           \<and> (updated_at s' = updated_at s \<or> updated_at s' = now)"
proof (cases m)
  case (UpdateStage j stg det)
  with assms show ?thesis
    by (cases "jobs st j") (auto simp: update_stage_def)
next
  case (AddError j msg)
  with assms show ?thesis
    by (cases "jobs st j") (auto simp: add_error_def)
next
  case (SetAsset j name val)
  with assms show ?thesis
    by (cases "jobs st j") (auto simp: set_asset_def get_def)
next
  case (StoreTranscript j r)
  with assms show ?thesis by (auto simp: store_transcript_def)
next
  case (StoreSummary j sm)
  with assms show ?thesis by (auto simp: store_summary_def)
next
  case (StoreSummaryAudio j p)
  with assms show ?thesis by (auto simp: store_summary_audio_def)
qed

lemma run_mutations_errors_prefix:
  "jobs st jid = Some s \<Longrightarrow> run_mutations st ms = Inr st' \<Longrightarrow>
   \<exists>s'. jobs st' jid = Some s' \<and> prefix (errors s) (errors s')"
proof (induction ms arbitrary: st s)
  case Nil
  then show ?case by auto
next
  case (Cons m ms)
  obtain now mu where m: "m = (now, mu)" by (cases m)
  from Cons.prems(2) obtain st1 where
    st1: "apply_mutation st m = Inr st1" and rest: "run_mutations st1 ms = Inr st'"
    by (auto split: sum.splits)
  from apply_mutation_step [OF Cons.prems(1) st1 [unfolded m]] obtain s1 where
    s1: "jobs st1 jid = Some s1" "prefix (errors s) (errors s1)" by blast
  from Cons.IH [OF s1(1) rest] obtain s' where
    "jobs st' jid = Some s'" "prefix (errors s1) (errors s')" by blast
  with s1(2) show ?case by (auto intro: prefix_order.trans)
qed

lemma run_mutations_updated_at_mono:
  "jobs st jid = Some s \<Longrightarrow> run_mutations st ms = Inr st' \<Longrightarrow>
   sorted (updated_at s # map fst ms) \<Longrightarrow>
   \<exists>s'. jobs st' jid = Some s' \<and> updated_at s \<le> updated_at s'"
proof (induction ms arbitrary: st s)
  case Nil
  then show ?case by auto
next
  case (Cons m ms)
  obtain now mu where m: "m = (now, mu)" by (cases m)
  from Cons.prems(2) obtain st1 where
    st1: "apply_mutation st m = Inr st1" and rest: "run_mutations st1 ms = Inr st'"
    by (auto split: sum.splits)
  from apply_mutation_step [OF Cons.prems(1) st1 [unfolded m]] obtain s1 where
    s1: "jobs st1 jid = Some s1" "updated_at s1 = updated_at s \<or> updated_at s1 = now"
    by blast
  from Cons.prems(3) m have le: "updated_at s \<le> now" by simp
  from Cons.prems(3) m s1(2) have srt: "sorted (updated_at s1 # map fst ms)"
    by auto
  from Cons.IH [OF s1(1) rest srt] obtain s' where
    "jobs st' jid = Some s'" "updated_at s1 \<le> updated_at s'" by blast
  with s1(2) le show ?case by auto
qed

section \<open>Properties of the pipeline\<close>

lemmas step_defs = and_then_def returning_def invoke_def run_update_stage_def run_store_transcript_def
  run_store_summary_def run_store_summary_audio_def run_set_asset_def new_transcript_def
  read_transcript_def assign_turns_def save_text_def save_binary_def get_job_dir_def
  synthesize_tts_def update_stage_def set_asset_def get_def store_transcript_def
  store_summary_def store_summary_audio_def stage_in_def

lemma and_then_cases:
  assumes "and_then m f w = (r, w')"
  obtains (raised) e where "m w = (Inl e, w')" and "r = Inl e"
        | (went_on) a w1 where "m w = (Inr a, w1)" and "f a w1 = (r, w')"
  using assms unfolding and_then_def by (auto split: prod.splits sum.splits)

lemma entered_before_invoked_append:
  "entered_before_invoked xs \<Longrightarrow> entered_before_invoked ys \<Longrightarrow> entered_before_invoked (xs @ ys)"
proof (induction xs rule: entered_before_invoked.induct)
  case (3 j stg)
  then show ?case by (cases ys rule: entered_before_invoked.cases) auto
qed auto

lemma stages_written_append: "stages_written (xs @ ys) = stages_written xs @ stages_written ys"
  by (induction xs rule: stages_written.induct) auto

lemma transcribe_block_keeps:
  assumes "jobs (pipeline_state w) jid = Some s" and "transcribe_block ev jid ap w = (r, w')"
  shows "\<exists>s'. jobs (pipeline_state w') jid = Some s' \<and> errors s' = errors s
          \<and> trace w' = trace w @ [StageSet jid (Some TRANSCRIBING), Invoke jid Transcribe (Some TRANSCRIBING)]"
  using assms unfolding transcribe_block_def step_defs
  by (auto split: sum.splits prod.splits option.splits)

lemma diarize_block_keeps:
  assumes "jobs (pipeline_state w) jid = Some s" and "diarize_block ev jid ap tr w = (r, w')"
  shows "\<exists>s'. jobs (pipeline_state w') jid = Some s' \<and> errors s' = errors s
          \<and> trace w' = trace w @ [StageSet jid (Some DIARIZING), Invoke jid Diarize (Some DIARIZING)]"
  using assms unfolding diarize_block_def step_defs
  by (auto split: sum.splits prod.splits option.splits)

lemma summarize_block_keeps:
  assumes "jobs (pipeline_state w) jid = Some s" and "summarize_block ev jid tr w = (r, w')"
  shows "\<exists>s'. jobs (pipeline_state w') jid = Some s' \<and> errors s' = errors s
          \<and> trace w' = trace w @ [StageSet jid (Some SUMMARIZING), Invoke jid Summarize (Some SUMMARIZING)]"
  using assms unfolding summarize_block_def step_defs
  by (auto split: sum.splits prod.splits option.splits)

lemma tts_block_keeps:
  assumes "jobs (pipeline_state w) jid = Some s" and "tts_block ev jid sm w = (r, w')"
  shows "\<exists>s'. jobs (pipeline_state w') jid = Some s' \<and> errors s' = errors s
          \<and> trace w' = trace w @ [StageSet jid (Some TTS), Invoke jid Synthesize (Some TTS)]"
  using assms unfolding tts_block_def step_defs
  by (auto split: sum.splits prod.splits option.splits)

lemma optional_tts_keeps:
  assumes "jobs (pipeline_state w) jid = Some s"
    and "(if with_tts then tts_block ev jid sm else returning (Inr ())) w = (r, w')"
  shows "\<exists>s'. jobs (pipeline_state w') jid = Some s' \<and> errors s' = errors s
          \<and> trace w' = trace w @ (if with_tts then [StageSet jid (Some TTS), Invoke jid Synthesize (Some TTS)] else [])
          \<and> (with_tts \<or> r = Inr ())"
  using assms tts_block_keeps [of w jid s ev sm r w']
  by (cases with_tts) (auto simp: returning_def)

lemma completed_keeps:
  assumes "jobs (pipeline_state w) jid = Some s"
    and "run_update_stage ev jid COMPLETED det w = (r, w')"
  shows "\<exists>s'. jobs (pipeline_state w') jid = Some s' \<and> errors s' = errors s
          \<and> stage s' = COMPLETED \<and> r = Inr ()
          \<and> trace w' = trace w @ [StageSet jid (Some COMPLETED)]"
  using assms unfolding run_update_stage_def update_stage_def stage_in_def by auto

lemma process_job_try_spec:
  assumes present: "jobs (pipeline_state w) jid = Some s"
    and run: "process_job_try ev jid ap with_tts w = (r, w')"
  shows "\<exists>s' new. jobs (pipeline_state w') jid = Some s' \<and> errors s' = errors s
          \<and> trace w' = trace w @ new
          \<and> entered_before_invoked new
          \<and> (\<forall>e. r = Inl e \<longrightarrow> (\<exists>a seen. last new = Invoke jid a seen))
          \<and> (\<forall>u. r = Inr u \<longrightarrow> stage s' = COMPLETED \<and> new = try_events jid with_tts)"
  using run unfolding process_job_try_def
proof (cases rule: and_then_cases)
  case (raised e)
  from transcribe_block_keeps [OF present raised(1)] raised(2) show ?thesis by auto
next
  case (went_on tr w1)
  from transcribe_block_keeps [OF present went_on(1)] obtain s1 where
    s1: "jobs (pipeline_state w1) jid = Some s1" "errors s1 = errors s"
        "trace w1 = trace w @ [StageSet jid (Some TRANSCRIBING), Invoke jid Transcribe (Some TRANSCRIBING)]" by blast
  from went_on(2) show ?thesis
  proof (cases rule: and_then_cases)
    case (raised e)
    from diarize_block_keeps [OF s1(1) raised(1)] raised(2) s1 show ?thesis by auto
  next
    case (went_on u2 w2)
    from diarize_block_keeps [OF s1(1) went_on(1)] obtain s2 where
      s2: "jobs (pipeline_state w2) jid = Some s2" "errors s2 = errors s1"
          "trace w2 = trace w1 @ [StageSet jid (Some DIARIZING), Invoke jid Diarize (Some DIARIZING)]" by blast
    from went_on(2) show ?thesis
    proof (cases rule: and_then_cases)
      case (raised e)
      from summarize_block_keeps [OF s2(1) raised(1)] raised(2) s1 s2 show ?thesis by auto
    next
      case (went_on sm w3)
      from summarize_block_keeps [OF s2(1) went_on(1)] obtain s3 where
        s3: "jobs (pipeline_state w3) jid = Some s3" "errors s3 = errors s2"
            "trace w3 = trace w2 @ [StageSet jid (Some SUMMARIZING), Invoke jid Summarize (Some SUMMARIZING)]" by blast
      from went_on(2) show ?thesis
      proof (cases rule: and_then_cases)
        case (raised e)
        from optional_tts_keeps [OF s3(1) raised(1)] raised(2) s1 s2 s3 show ?thesis
          by (cases with_tts) auto
      next
        case (went_on u4 w4)
        from optional_tts_keeps [OF s3(1) went_on(1)] obtain s4 where
          s4: "jobs (pipeline_state w4) jid = Some s4" "errors s4 = errors s3"
              "trace w4 = trace w3 @ (if with_tts then [StageSet jid (Some TTS), Invoke jid Synthesize (Some TTS)] else [])"
          by blast
        from completed_keeps [OF s4(1) went_on(2)] s1 s2 s3 s4 show ?thesis
          by (auto simp: try_events_def)
      qed
    qed
  qed
qed
lemmas block_defs = process_job_def process_job_try_def transcribe_block_def diarize_block_def
  summarize_block_def tts_block_def run_add_error_def add_error_def run_get_def

lemmas fixture_defs = example_env_def example_world_def example_turns_def stub_transcribe_def
  stub_llm_def stub_tts_def no_disk_error_def stub_transcript_json_def stub_summary_json_def
  init_state_def

lemma process_job_failed:
  assumes present: "jobs (pipeline_state w) jid = Some s"
    and run: "process_job_try ev jid ap with_tts w = (Inl e, w1)"
    and caught: "is_Exception e"
  shows "\<exists>s1. jobs (pipeline_state w1) jid = Some s1 \<and> errors s1 = errors s
           \<and> process_job ev jid ap with_tts w =
               (Inr (s1\<lparr>errors := errors s1 @ [str_exc ev e], stage := FAILED,
                        updated_at := utcnow ev (clock_reads w1)\<rparr>),
                w1\<lparr>pipeline_state := (pipeline_state w1)\<lparr>jobs := (jobs (pipeline_state w1))
                      (jid \<mapsto> s1\<lparr>errors := errors s1 @ [str_exc ev e], stage := FAILED,
                                  updated_at := utcnow ev (clock_reads w1)\<rparr>)\<rparr>,
                   clock_reads := Suc (clock_reads w1),
                   trace := trace w1 @ [StageSet jid (Some FAILED)]\<rparr>)"
proof -
  from process_job_try_spec [OF present run] obtain s1 where
    s1: "jobs (pipeline_state w1) jid = Some s1" "errors s1 = errors s" by blast
  with run caught show ?thesis
    by (simp add: process_job_def and_then_def run_add_error_def add_error_def run_get_def get_def
          stage_in_def)
qed

lemma process_job_succeeded:
  assumes present: "jobs (pipeline_state w) jid = Some s"
    and run: "process_job_try ev jid ap with_tts w = (Inr u, w1)"
  shows "\<exists>s1. jobs (pipeline_state w1) jid = Some s1 \<and> errors s1 = errors s
           \<and> stage s1 = COMPLETED
           \<and> trace w1 = trace w @ try_events jid with_tts
           \<and> process_job ev jid ap with_tts w = (Inr s1, w1)"
proof -
  from process_job_try_spec [OF present run] obtain s1 where
    s1: "jobs (pipeline_state w1) jid = Some s1" "errors s1 = errors s" "stage s1 = COMPLETED"
        "trace w1 = trace w @ try_events jid with_tts" by auto
  with run show ?thesis
    by (simp add: process_job_def run_get_def get_def)
qed


lemma transcribe_block_ok:
  assumes "jobs (pipeline_state w) jid = Some s"
    and "transcribe_audio ev ap = Inr (lang, ts)"
    and "disk_error ev jid ''transcript.json'' = None"
  shows "transcribe_block ev jid ap w =
     (Inr (length (objects w)),
      w\<lparr>pipeline_state := (pipeline_state w)
           \<lparr>jobs := (jobs (pipeline_state w))(jid \<mapsto>
              s\<lparr>stage := TRANSCRIBING, detail := Some ''Running transcription'',
                 updated_at := utcnow ev (clock_reads w),
                 assets := (assets s)(''transcript'' \<mapsto> media_url jid ''transcript.json'')\<rparr>),
            transcripts := (transcripts (pipeline_state w))(jid \<mapsto> length (objects w))\<rparr>,
         objects := objects w @ [\<lparr>language = Some lang, duration = None, turns = ts\<rparr>],
         results_dir := (results_dir w)(jid \<mapsto>
            write_file (case results_dir w jid of None \<Rightarrow> [] | Some files \<Rightarrow> files)
              ''transcript.json''
              (transcript_json ev \<lparr>language = Some lang, duration = None, turns = ts\<rparr>)),
         clock_reads := Suc (clock_reads w),
         trace := trace w @ [StageSet jid (Some TRANSCRIBING), Invoke jid Transcribe (Some TRANSCRIBING)]\<rparr>)"
  using assms unfolding transcribe_block_def step_defs
  by (cases "results_dir w jid") simp_all

lemma diarize_block_failed:
  assumes "jobs (pipeline_state w) jid = Some s"
    and "diarize (hoard ev) (turns (objects w ! r)) ap = Inl e"
  shows "diarize_block ev jid ap r w =
     (Inl e,
      w\<lparr>pipeline_state := (pipeline_state w)
           \<lparr>jobs := (jobs (pipeline_state w))(jid \<mapsto>
              s\<lparr>stage := DIARIZING, detail := Some ''Applying Hoard diarization'',
                 updated_at := utcnow ev (clock_reads w)\<rparr>)\<rparr>,
         clock_reads := Suc (clock_reads w),
         trace := trace w @ [StageSet jid (Some DIARIZING), Invoke jid Diarize (Some DIARIZING)]\<rparr>)"
  using assms unfolding diarize_block_def step_defs by simp

lemma diarize_block_replaces:
  assumes "jobs (pipeline_state w) jid = Some s"
    and "diarize (hoard ev) (turns (objects w ! r)) ap = Inr ds"
    and "diarize_block ev jid ap r w = (res, w')"
  shows "objects w' = (objects w)[r := (objects w ! r)\<lparr>turns := ds\<rparr>]
       \<and> transcripts (pipeline_state w') = transcripts (pipeline_state w)
       \<and> (\<exists>s'. jobs (pipeline_state w') jid = Some s')"
  using assms unfolding diarize_block_def step_defs
  by (auto split: option.splits)





lemma process_job_not_caught:
  assumes "process_job_try ev jid ap with_tts w = (Inl e, w1)" and "\<not> is_Exception e"
  shows "process_job ev jid ap with_tts w = (Inl e, w1)"
  using assms by (simp add: process_job_def)



lemma diarize_block_succeeds:
  assumes "jobs (pipeline_state w) jid = Some s"
    and "diarize (hoard ev) (turns (objects w ! r)) ap = Inr ds"
    and "disk_error ev jid ''diarized.json'' = None"
  shows "fst (diarize_block ev jid ap r w) = Inr ()"
  using assms unfolding diarize_block_def step_defs
  by (auto split: option.splits)

lemma summarize_block_empty:
  assumes "jobs (pipeline_state w) jid = Some s"
    and "turns (objects w ! r) = []"
  shows "fst (summarize_block ev jid r w) = Inl (SummarizationError ''Transcript is empty.'')"
  using assms unfolding summarize_block_def step_defs
  by (simp add: summarize_def)

lemma fallback_diarize_length: "length (map fallback_turn (enumerate n ts)) = length ts"
  by simp




lemma empty_turns_fail_run:
  assumes present: "jobs (pipeline_state w) jid = Some s"
    and tr: "transcribe_audio ev ap = Inr (lang, ts)"
    and disk: "disk_error ev jid ''transcript.json'' = None"
    and di: "diarize (hoard ev) ts ap = Inr []"
    and disk2: "disk_error ev jid ''diarized.json'' = None"
  shows "\<exists>status w'.
           process_job ev jid ap with_tts w = (Inr status, w')
         \<and> stage status = FAILED
         \<and> errors status = errors s @ [''Transcript is empty.'']
         \<and> trace w' = trace w @ [StageSet jid (Some TRANSCRIBING), Invoke jid Transcribe (Some TRANSCRIBING),
                                  StageSet jid (Some DIARIZING), Invoke jid Diarize (Some DIARIZING),
                                  StageSet jid (Some SUMMARIZING), Invoke jid Summarize (Some SUMMARIZING),
                                  StageSet jid (Some FAILED)]"
proof -
  let ?r = "length (objects w)"
  obtain w1 where b1: "transcribe_block ev jid ap w = (Inr ?r, w1)"
    and o1: "objects w1 = objects w @ [\<lparr>language = Some lang, duration = None, turns = ts\<rparr>]"
    using transcribe_block_ok [OF present tr disk] by simp
  from transcribe_block_keeps [OF present b1] obtain s1 where
    s1: "jobs (pipeline_state w1) jid = Some s1"
    and t1: "trace w1 = trace w @ [StageSet jid (Some TRANSCRIBING), Invoke jid Transcribe (Some TRANSCRIBING)]" by blast
  from o1 di have d1: "diarize (hoard ev) (turns (objects w1 ! ?r)) ap = Inr []" by simp
  obtain r2 w2 where b2': "diarize_block ev jid ap ?r w1 = (r2, w2)"
    by (cases "diarize_block ev jid ap ?r w1")
  with diarize_block_succeeds [OF s1 d1 disk2]
  have b2: "diarize_block ev jid ap ?r w1 = (Inr (), w2)" by simp
  from diarize_block_keeps [OF s1 b2] obtain s2 where
    s2: "jobs (pipeline_state w2) jid = Some s2"
    and t2: "trace w2 = trace w1 @ [StageSet jid (Some DIARIZING), Invoke jid Diarize (Some DIARIZING)]" by blast
  from diarize_block_replaces [OF s1 d1 b2] o1
  have o2: "turns (objects w2 ! ?r) = []" by simp
  obtain r3 w3 where b3': "summarize_block ev jid ?r w2 = (r3, w3)"
    by (cases "summarize_block ev jid ?r w2")
  with summarize_block_empty [OF s2 o2, of ev]
  have b3: "summarize_block ev jid ?r w2 = (Inl (SummarizationError ''Transcript is empty.''), w3)"
    by simp
  from summarize_block_keeps [OF s2 b3]
  have t3: "trace w3 = trace w2 @ [StageSet jid (Some SUMMARIZING), Invoke jid Summarize (Some SUMMARIZING)]" by blast
  have run: "process_job_try ev jid ap with_tts w
      = (Inl (SummarizationError ''Transcript is empty.''), w3)"
    using b1 b2 b3 by (simp add: process_job_try_def and_then_def)
  from process_job_failed [OF present run] t1 t2 t3 show ?thesis by auto
qed

text \<open>
  The outcome of the \<open>try\<close> block is the first failure of the run: the block raises
  the first exception that an adapter call or an artifact write raises, and completes
  when none raises.
\<close>

lemmas run_defs = process_job_try_def transcribe_block_def diarize_block_def
    summarize_block_def tts_block_def step_defs

lemma try_outcome:
  assumes "jobs (pipeline_state w) jid = Some s"
  shows "fst (process_job_try ev jid ap with_tts w)
           = (case first_failure ev jid ap with_tts of None \<Rightarrow> Inr () | Some e \<Rightarrow> Inl e)"
proof (cases "transcribe_audio ev ap")
  case (Inl e)
  with assms show ?thesis
    unfolding first_failure_def run_defs by simp
next
  case tr: (Inr p)
  obtain lang ts where p: "p = (lang, ts)" by (cases p)
  note tr = tr [unfolded p]
  show ?thesis
  proof (cases "disk_error ev jid ''transcript.json''")
    case (Some e)
    with assms tr show ?thesis
      unfolding first_failure_def run_defs by (cases "results_dir w jid") simp_all
  next
    case d1: None
    show ?thesis
    proof (cases "diarize (hoard ev) ts ap")
      case (Inl e)
      with assms tr d1 show ?thesis
        unfolding first_failure_def run_defs by (cases "results_dir w jid") simp_all
    next
      case di: (Inr ds)
      show ?thesis
      proof (cases "disk_error ev jid ''diarized.json''")
        case (Some e)
        with assms tr d1 di show ?thesis
          unfolding first_failure_def run_defs by (cases "results_dir w jid") simp_all
      next
        case d2: None
        show ?thesis
        proof (cases "summarize (llm_provider ev) ds")
          case (Inl e)
          with assms tr d1 di d2 show ?thesis
            unfolding first_failure_def run_defs by (cases "results_dir w jid") simp_all
        next
          case su: (Inr sm)
          show ?thesis
          proof (cases "disk_error ev jid ''summary.json''")
            case (Some e)
            with assms tr d1 di d2 su show ?thesis
              unfolding first_failure_def run_defs by (cases "results_dir w jid") simp_all
          next
            case d3: None
            show ?thesis
            proof (cases with_tts)
              case False
              with assms tr d1 di d2 su d3 show ?thesis
                unfolding first_failure_def run_defs by (cases "results_dir w jid") simp_all
            next
              case True
              show ?thesis
              proof (cases "tts_provider ev \<lparr>tts_job_id = jid, tts_text = overview sm, voice = None\<rparr>")
                case (Inl e)
                with assms tr d1 di d2 su d3 True show ?thesis
                  unfolding first_failure_def run_defs by (cases "results_dir w jid") simp_all
              next
                case tt: (Inr audio_bytes)
                show ?thesis
                proof (cases "disk_error ev jid ''summary.mp3''")
                  case (Some e)
                  with assms tr d1 di d2 su d3 True tt show ?thesis
                    unfolding first_failure_def run_defs by (cases "results_dir w jid") simp_all
                next
                  case None
                  with assms tr d1 di d2 su d3 True tt show ?thesis
                    unfolding first_failure_def run_defs by (cases "results_dir w jid") simp_all
                qed
              qed
            qed
          qed
        qed
      qed
    qed
  qed
qed














section \<open>Properties of the process endpoint\<close>

lemma start_processing_no_audio:
  assumes "fst (get_job_dir (req_job_id request) w) = Inr job_dir"
    and "glob_source job_dir = []"
  shows "start_processing request w =
     (Inl (HTTPException 400 ''Audio source not available for processing.''),
      snd (get_job_dir (req_job_id request) w))"
  using assms
  by (cases "get_job_dir (req_job_id request) w") (simp add: start_processing_def)

lemma start_processing_schedules:
  assumes "jobs (pipeline_state w) (req_job_id request) = Some s"
    and "results_dir w (req_job_id request) = Some files"
    and "glob_source files = a # as"
  shows "start_processing request w =
     (Inr (\<lparr>resp_job_id = req_job_id request, resp_status = s\<rparr>,
           [\<lparr>task_job_id = req_job_id request, task_audio_path = a,
             task_enable_tts = enable_tts request\<rparr>]), w)"
  using assms
  by (auto simp: start_processing_def get_job_dir_def Let_def ensure_job_def run_get_def get_def)

lemma start_processing_never_404:
  "fst (start_processing request w) \<noteq> Inl (HTTPException 404 d)"
  by (auto simp: start_processing_def get_job_dir_def Let_def ensure_job_def run_get_def get_def
      split: option.splits sum.splits prod.splits)

section \<open>Properties of runs as tasks\<close>

text \<open>
  A task that is resumed five times in a row, with no other task in between, changes
  the world exactly as \<open>process_job\<close> does.
\<close>

lemma uninterrupted_is_process_job:
  "resume_times 5 ev task (NotStarted, w) = (Returned, launch_background ev task w)"
  unfolding launch_background_def process_job_def process_job_try_def transcribe_block_def
     diarize_block_def summarize_block_def tts_block_def
  apply (simp add: numeral_eq_Suc resume_def and_then_def returning_def invoke_def
      new_transcript_def read_transcript_def run_store_transcript_def assign_turns_def
      run_store_summary_def run_get_def
      split: prod.splits sum.splits)
  done

lemma resume_start:
  assumes "jobs (pipeline_state w) (task_job_id task) = Some s"
  shows "resume ev task NotStarted w =
     (AwaitTranscribe (transcribe_audio ev (task_audio_path task)),
      w\<lparr>pipeline_state := (pipeline_state w)\<lparr>jobs := (jobs (pipeline_state w))
            (task_job_id task \<mapsto> s\<lparr>stage := TRANSCRIBING, detail := Some ''Running transcription'',
                                     updated_at := utcnow ev (clock_reads w)\<rparr>)\<rparr>,
         clock_reads := Suc (clock_reads w),
         trace := trace w @ [StageSet (task_job_id task) (Some TRANSCRIBING),
                             Invoke (task_job_id task) Transcribe (Some TRANSCRIBING)]\<rparr>)"
  using assms
  by (simp add: resume_def and_then_def run_update_stage_def update_stage_def invoke_def returning_def
        stage_in_def)

lemmas schedule_defs = resume_def block_defs step_defs fixture_defs diarize_def summarize_def
  fallback_turn_def media_url_def example_task_def

section \<open>Claims about the job tracker\<close>

text \<open>
  C3 (as amended). \<open>create_status\<close> never fails and has no duplicate check: whatever
  the registry holds for the id, it returns a fresh record (stage \<open>UPLOADED\<close>, no
  detail, both timestamps the current time, no errors, no assets) and stores it under
  the id, replacing any record that was there; the stored transcripts, summaries and
  summary-audio references are left as they were.
\<close>

theorem create_status_overwrites:
  "fst (create_status st jid now) =
     \<lparr>job_id = jid, stage = UPLOADED, detail = None, created_at = now, updated_at = now,
      errors = [], assets = Map.empty\<rparr>
   \<and> jobs (snd (create_status st jid now)) = (jobs st)(jid \<mapsto> fst (create_status st jid now))
   \<and> transcripts (snd (create_status st jid now)) = transcripts st
   \<and> summaries (snd (create_status st jid now)) = summaries st
   \<and> summary_audio (snd (create_status st jid now)) = summary_audio st"
  by (simp add: create_status_def Let_def)

text \<open>
  C3 fails as stated: job \<open>j\<close> is created at time 1 and fails at time 2 with the error
  \<open>boom\<close>; a second \<open>create_status\<close> for \<open>j\<close> at time 3 returns normally and the
  record of \<open>j\<close> has lost its error.
\<close>

theorem create_status_duplicate_counterexample:
  "map_option errors
     (jobs (projr (add_error (snd (create_status init_state ''j'' 1)) ''j'' ''boom'' 2)) ''j'')
     = Some [''boom'']
   \<and> map_option errors
     (jobs (snd (create_status
        (projr (add_error (snd (create_status init_state ''j'' 1)) ''j'' ''boom'' 2)) ''j'' 3)) ''j'')
     = Some []"
  by (simp add: create_status_def add_error_def init_state_def Let_def)

text \<open>
  C1 (as amended). For a job present in the registry, no sequence of \<open>update_stage\<close>,
  \<open>add_error\<close>, asset writes and \<open>store_*\<close> calls removes the job or shortens its
  errors: the old list is a prefix of the new one. \<open>add_error\<close> appends the message
  and sets the stage to \<open>FAILED\<close>. \<open>update_stage\<close> keeps the errors and sets the
  stage to the stage it is given, whatever the current stage is.
\<close>

theorem errors_kept_stage_overwritten:
  assumes "jobs st jid = Some s"
  shows "(run_mutations st ms = Inr st' \<longrightarrow>
            (\<exists>s'. jobs st' jid = Some s' \<and> prefix (errors s) (errors s')))
       \<and> (\<exists>s'. status_after (add_error st jid m now) jid = Some s'
              \<and> errors s' = errors s @ [m] \<and> stage s' = FAILED)
       \<and> (\<exists>s'. status_after (update_stage st jid stg det now) jid = Some s'
              \<and> errors s' = errors s \<and> stage s' = stg)"
  using assms run_mutations_errors_prefix [of st jid s ms st']
  by (simp add: add_error_present update_stage_present)

theorem errors_kept_stage_overwritten_witness:
  "jobs (snd (create_status init_state ''j'' 1)) ''j'' = Some (fst (create_status init_state ''j'' 1))
   \<and> run_mutations (snd (create_status init_state ''j'' 1))
        [(2, AddError ''j'' ''boom''), (3, UpdateStage ''j'' TRANSCRIBING (Some ''Running transcription''))]
      = Inr (init_state\<lparr>jobs := [''j'' \<mapsto> \<lparr>job_id = ''j'', stage = TRANSCRIBING,
               detail = Some ''Running transcription'', created_at = 1, updated_at = 3,
               errors = [''boom''], assets = Map.empty\<rparr>]\<rparr>)
   \<and> prefix (errors (fst (create_status init_state ''j'' 1))) [''boom'']"
  using errors_kept_stage_overwritten [of "snd (create_status init_state ''j'' 1)" "''j''"
     "fst (create_status init_state ''j'' 1)"
     "[(2, AddError ''j'' ''boom''), (3, UpdateStage ''j'' TRANSCRIBING (Some ''Running transcription''))]"
     "init_state\<lparr>jobs := [''j'' \<mapsto> \<lparr>job_id = ''j'', stage = TRANSCRIBING,
               detail = Some ''Running transcription'', created_at = 1, updated_at = 3,
               errors = [''boom''], assets = Map.empty\<rparr>]\<rparr>"]
  by (simp add: create_status_def add_error_def update_stage_def init_state_def Let_def)

text \<open>
  C1 fails as stated: after \<open>add_error\<close> has failed job \<open>j\<close>, the first
  \<open>update_stage\<close> call of a pipeline run sets the stage to \<open>TRANSCRIBING\<close> while the
  errors list still holds \<open>boom\<close>.
\<close>

theorem failed_not_terminal_counterexample:
  "map_option stage (status_after (run_mutations (snd (create_status init_state ''j'' 1))
        [(2, AddError ''j'' ''boom''),
         (3, UpdateStage ''j'' TRANSCRIBING (Some ''Running transcription''))]) ''j'')
     = Some TRANSCRIBING
   \<and> map_option errors (status_after (run_mutations (snd (create_status init_state ''j'' 1))
        [(2, AddError ''j'' ''boom''),
         (3, UpdateStage ''j'' TRANSCRIBING (Some ''Running transcription''))]) ''j'')
     = Some [''boom'']"
  by (simp add: create_status_def add_error_def update_stage_def init_state_def Let_def)

text \<open>
  C7 (as amended). For a job present in the registry, \<open>update_stage\<close> and \<open>add_error\<close>
  set \<open>updated_at\<close> to the clock reading of the call; an asset write leaves
  \<open>updated_at\<close> as it was, and \<open>store_transcript\<close>, \<open>store_summary\<close> and
  \<open>store_summary_audio\<close> do not touch the job records at all. Over any sequence of
  these mutations whose clock readings are non-decreasing and not before the job's
  \<open>updated_at\<close>, the final \<open>updated_at\<close> is not before the initial one.
\<close>

theorem updated_at_refresh:
  assumes "jobs st jid = Some s"
  shows "map_option updated_at (status_after (update_stage st jid stg det now) jid) = Some now
       \<and> map_option updated_at (status_after (add_error st jid m now) jid) = Some now
       \<and> map_option updated_at (status_after (set_asset st jid name val) jid) = Some (updated_at s)
       \<and> jobs (store_transcript st jid r) = jobs st
       \<and> jobs (store_summary st jid sm) = jobs st
       \<and> jobs (store_summary_audio st jid p) = jobs st
       \<and> (run_mutations st ms = Inr st' \<and> sorted (updated_at s # map fst ms) \<longrightarrow>
            (\<exists>s'. jobs st' jid = Some s' \<and> updated_at s \<le> updated_at s'))"
  using assms run_mutations_updated_at_mono [of st jid s ms st']
  by (simp add: add_error_present update_stage_present set_asset_present
        store_transcript_def store_summary_def store_summary_audio_def)

theorem updated_at_refresh_witness:
  "jobs (snd (create_status init_state ''j'' 1)) ''j'' = Some (fst (create_status init_state ''j'' 1))
   \<and> run_mutations (snd (create_status init_state ''j'' 1))
        [(2, UpdateStage ''j'' TRANSCRIBING None), (5, SetAsset ''j'' ''transcript'' ''/media/j/transcript.json'')]
      = Inr (init_state\<lparr>jobs := [''j'' \<mapsto> \<lparr>job_id = ''j'', stage = TRANSCRIBING,
               detail = None, created_at = 1, updated_at = 2,
               errors = [], assets = [''transcript'' \<mapsto> ''/media/j/transcript.json'']\<rparr>]\<rparr>)
   \<and> sorted (updated_at (fst (create_status init_state ''j'' 1)) # map fst
        [(2::int, UpdateStage ''j'' TRANSCRIBING None), (5, SetAsset ''j'' ''transcript'' ''/media/j/transcript.json'')])
   \<and> updated_at (fst (create_status init_state ''j'' 1)) \<le> 2"
  using updated_at_refresh [of "snd (create_status init_state ''j'' 1)" "''j''"
     "fst (create_status init_state ''j'' 1)" _ _ _ _ _ _ _ _ _
     "[(2, UpdateStage ''j'' TRANSCRIBING None), (5, SetAsset ''j'' ''transcript'' ''/media/j/transcript.json'')]"
     "init_state\<lparr>jobs := [''j'' \<mapsto> \<lparr>job_id = ''j'', stage = TRANSCRIBING,
               detail = None, created_at = 1, updated_at = 2,
               errors = [], assets = [''transcript'' \<mapsto> ''/media/j/transcript.json'']\<rparr>]\<rparr>"]
  by (simp add: create_status_def set_asset_def get_def update_stage_def init_state_def Let_def)

text \<open>
  C7 fails as stated: job \<open>j\<close> is created at time 1; registering its source audio
  at time 5 changes \<open>assets\<close> and leaves \<open>updated_at\<close> at 1.
\<close>

theorem asset_write_no_refresh_counterexample:
  "map_option updated_at
     (status_after (apply_mutation (snd (create_status init_state ''j'' 1))
        (5, SetAsset ''j'' ''source_audio'' ''/media/j/source.mp3'')) ''j'') = Some 1
   \<and> map_option assets
     (status_after (apply_mutation (snd (create_status init_state ''j'' 1))
        (5, SetAsset ''j'' ''source_audio'' ''/media/j/source.mp3'')) ''j'')
      = Some [''source_audio'' \<mapsto> ''/media/j/source.mp3'']"
  by (simp add: create_status_def set_asset_def get_def init_state_def Let_def)

section \<open>Claims about a pipeline run\<close>

text \<open>
  C5 (as amended). For a job present in the registry, take the first exception that
  an adapter call or an artifact write of the run raises, the calls and writes taken
  in the order of the pipeline. If it is of class \<open>Exception\<close>, \<open>process_job\<close> returns
  the job's status, with stage \<open>FAILED\<close> and with the errors the job had before the
  run followed by the text of that exception, and no exception leaves the run. If
  nothing raises, it returns the status with stage \<open>COMPLETED\<close> and the errors as
  before. If the exception is not of class \<open>Exception\<close>, it leaves \<open>process_job\<close>
  and the job's errors are as before the run.
\<close>

theorem first_failure_is_recorded:
  assumes "jobs (pipeline_state w) jid = Some s"
  shows "case first_failure ev jid ap with_tts of
           None \<Rightarrow>
             (\<exists>status w'. process_job ev jid ap with_tts w = (Inr status, w')
                \<and> stage status = COMPLETED \<and> errors status = errors s)
         | Some e \<Rightarrow>
             if is_Exception e
             then (\<exists>status w'. process_job ev jid ap with_tts w = (Inr status, w')
                     \<and> stage status = FAILED \<and> errors status = errors s @ [str_exc ev e])
             else (\<exists>w' s'. process_job ev jid ap with_tts w = (Inl e, w')
                     \<and> jobs (pipeline_state w') jid = Some s' \<and> errors s' = errors s)"
proof (cases "process_job_try ev jid ap with_tts w")
  case (Pair r w1)
  from try_outcome [OF assms, of ev ap with_tts] Pair
  have r: "r = (case first_failure ev jid ap with_tts of None \<Rightarrow> Inr () | Some e \<Rightarrow> Inl e)"
    by simp
  show ?thesis
  proof (cases "first_failure ev jid ap with_tts")
    case None
    with r Pair process_job_succeeded [OF assms, of ev ap with_tts "()" w1] show ?thesis
      by auto
  next
    case (Some e)
    with r have run: "process_job_try ev jid ap with_tts w = (Inl e, w1)" using Pair by simp
    show ?thesis
    proof (cases "is_Exception e")
      case True
      with Some process_job_failed [OF assms run] show ?thesis by auto
    next
      case False
      with Some process_job_not_caught [OF run] process_job_try_spec [OF assms run]
      show ?thesis by auto
    qed
  qed
qed

theorem first_failure_is_recorded_witness:
  "jobs (pipeline_state example_world) ''j''
     = Some \<lparr>job_id = ''j'', stage = UPLOADED, detail = None, created_at = 0,
             updated_at = 0, errors = [],
             assets = [''source_audio'' \<mapsto> ''/media/j/source.mp3'']\<rparr>
   \<and> first_failure (example_env\<lparr>llm_provider := failing_llm\<rparr>) ''j'' ''source.mp3'' False
       = Some (SummarizationError ''OpenAI API key not configured.'')
   \<and> is_Exception (SummarizationError ''OpenAI API key not configured.'')
   \<and> fst (process_job (example_env\<lparr>llm_provider := failing_llm\<rparr>)
             ''j'' ''source.mp3'' False example_world)
     = Inr \<lparr>job_id = ''j'', stage = FAILED, detail = Some ''Generating LLM summary'',
            created_at = 0, updated_at = 4,
            errors = [''OpenAI API key not configured.''],
            assets = [''source_audio'' \<mapsto> ''/media/j/source.mp3'',
                      ''transcript'' \<mapsto> ''/media/j/transcript.json'',
                      ''diarized_transcript'' \<mapsto> ''/media/j/diarized.json'']\<rparr>"
  using first_failure_is_recorded [of example_world "''j''" _
      "example_env\<lparr>llm_provider := failing_llm\<rparr>" "''source.mp3''" False]
  by (simp add: block_defs step_defs fixture_defs diarize_def summarize_def fallback_turn_def
        media_url_def failing_llm_def first_failure_def)


text \<open>
  C5 fails as stated: the transcription of job \<open>j\<close> is cancelled while the run
  awaits it. The \<open>CancelledError\<close> leaves \<open>process_job\<close>, and the job stays at
  \<open>TRANSCRIBING\<close> with no error recorded.
\<close>

theorem cancellation_not_recorded_counterexample:
  "first_failure (example_env\<lparr>transcribe_audio := cancelled_transcribe\<rparr>) ''j'' ''source.mp3'' False
     = Some CancelledError
   \<and> fst (process_job (example_env\<lparr>transcribe_audio := cancelled_transcribe\<rparr>)
             ''j'' ''source.mp3'' False example_world)
     = Inl CancelledError
   \<and> jobs (pipeline_state (snd (process_job (example_env\<lparr>transcribe_audio := cancelled_transcribe\<rparr>)
             ''j'' ''source.mp3'' False example_world))) ''j''
     = Some \<lparr>job_id = ''j'', stage = TRANSCRIBING, detail = Some ''Running transcription'',
             created_at = 0, updated_at = 1, errors = [],
             assets = [''source_audio'' \<mapsto> ''/media/j/source.mp3'']\<rparr>"
  by (simp add: block_defs step_defs fixture_defs cancelled_transcribe_def first_failure_def)

text \<open>
  C4. For a job present in the registry, the events of a run of \<open>process_job\<close> are
  such that every adapter invocation comes directly after a write to the job's stage,
  the registry holds that adapter's stage for the job right after the write, and it
  still holds it when the adapter is called. When no adapter call and no artifact
  write of the run raises, the stages that the registry holds after the writes of the
  run are \<open>TRANSCRIBING\<close>, \<open>DIARIZING\<close>, \<open>SUMMARIZING\<close>, then \<open>TTS\<close> exactly when the
  flag is set, then \<open>COMPLETED\<close>, which is the job's stage after the run.
\<close>

theorem stage_set_before_adapter:
  assumes "jobs (pipeline_state w) jid = Some s"
  shows "\<exists>new. trace (snd (process_job ev jid ap with_tts w)) = trace w @ new
           \<and> entered_before_invoked new
           \<and> (first_failure ev jid ap with_tts = None \<longrightarrow>
                stages_written new =
                  map Some ([TRANSCRIBING, DIARIZING, SUMMARIZING]
                            @ (if with_tts then [TTS] else []) @ [COMPLETED])
                \<and> stage_in (pipeline_state (snd (process_job ev jid ap with_tts w))) jid
                    = Some COMPLETED)"
proof (cases "process_job_try ev jid ap with_tts w")
  case (Pair r w1)
  from process_job_try_spec [OF assms Pair] obtain new where
    new: "trace w1 = trace w @ new" "entered_before_invoked new" by blast
  from try_outcome [OF assms, of ev ap with_tts] Pair
  have r: "r = (case first_failure ev jid ap with_tts of None \<Rightarrow> Inr () | Some e \<Rightarrow> Inl e)"
    by simp
  show ?thesis
  proof (cases r)
    case (Inl e)
    with r have ff: "first_failure ev jid ap with_tts \<noteq> None" by (auto split: option.splits)
    show ?thesis
    proof (cases "is_Exception e")
      case True
      from Pair Inl process_job_failed [OF assms _ True, of ev ap with_tts w1]
      have "trace (snd (process_job ev jid ap with_tts w))
              = trace w @ (new @ [StageSet jid (Some FAILED)])"
        using new by auto
      moreover have "entered_before_invoked (new @ [StageSet jid (Some FAILED)])"
        using new(2) by (simp add: entered_before_invoked_append)
      ultimately show ?thesis using ff by auto
    next
      case False
      from Pair Inl process_job_not_caught [OF _ False, of ev jid ap with_tts w w1]
      have "trace (snd (process_job ev jid ap with_tts w)) = trace w @ new"
        using new by auto
      with new(2) ff show ?thesis by auto
    qed
  next
    case (Inr u)
    from Pair Inr process_job_succeeded [OF assms, of ev ap with_tts u w1]
    have "trace (snd (process_job ev jid ap with_tts w)) = trace w @ try_events jid with_tts"
      and "stage_in (pipeline_state (snd (process_job ev jid ap with_tts w))) jid = Some COMPLETED"
      by (auto simp: stage_in_def)
    moreover have "entered_before_invoked (try_events jid with_tts)"
      by (simp add: try_events_def)
    moreover have "stages_written (try_events jid with_tts) =
        map Some ([TRANSCRIBING, DIARIZING, SUMMARIZING] @ (if with_tts then [TTS] else [])
                  @ [COMPLETED])"
      by (simp add: try_events_def)
    ultimately show ?thesis by auto
  qed
qed

theorem stage_set_before_adapter_witness:
  "jobs (pipeline_state example_world) ''j''
     = Some \<lparr>job_id = ''j'', stage = UPLOADED, detail = None, created_at = 0,
             updated_at = 0, errors = [],
             assets = [''source_audio'' \<mapsto> ''/media/j/source.mp3'']\<rparr>
   \<and> first_failure example_env ''j'' ''source.mp3'' True = None
   \<and> trace (snd (process_job example_env ''j'' ''source.mp3'' True example_world))
       = trace example_world @
         [StageSet ''j'' (Some TRANSCRIBING), Invoke ''j'' Transcribe (Some TRANSCRIBING),
          StageSet ''j'' (Some DIARIZING), Invoke ''j'' Diarize (Some DIARIZING),
          StageSet ''j'' (Some SUMMARIZING), Invoke ''j'' Summarize (Some SUMMARIZING),
          StageSet ''j'' (Some TTS), Invoke ''j'' Synthesize (Some TTS),
          StageSet ''j'' (Some COMPLETED)]
   \<and> stages_written (trace (snd (process_job example_env ''j'' ''source.mp3'' True example_world)))
       = [Some TRANSCRIBING, Some DIARIZING, Some SUMMARIZING, Some TTS, Some COMPLETED]
   \<and> stage_in (pipeline_state (snd (process_job example_env ''j'' ''source.mp3'' True example_world)))
        ''j'' = Some COMPLETED"
  using stage_set_before_adapter [of example_world "''j''" _ example_env "''source.mp3''" True]
  by (simp add: block_defs step_defs fixture_defs diarize_def summarize_def fallback_turn_def
        media_url_def first_failure_def summary_section_def)




text \<open>
  C9. \<open>summarize\<close> raises \<open>SummarizationError\<close> \<open>Transcript is empty.\<close> on an empty
  list of turns, whatever the provider. In a run on a job present in the registry in
  which the turns that reach summarization are empty (transcription and both
  transcript writes succeed and diarization returns no turns), \<open>process_job\<close> returns
  the status \<open>FAILED\<close> with that message appended to the errors; the summarizer is
  invoked once and the write of \<open>FAILED\<close> is the last event of the run.
\<close>

theorem empty_transcript_is_terminal:
  assumes "jobs (pipeline_state w) jid = Some s"
    and "transcribe_audio ev ap = Inr (lang, ts)"
    and "disk_error ev jid ''transcript.json'' = None"
    and "diarize (hoard ev) ts ap = Inr []"
    and "disk_error ev jid ''diarized.json'' = None"
  shows "summarize provider [] = Inl (SummarizationError ''Transcript is empty.'')
       \<and> (\<exists>status w'.
             process_job ev jid ap with_tts w = (Inr status, w')
           \<and> stage status = FAILED
           \<and> errors status = errors s @ [''Transcript is empty.'']
           \<and> trace w' = trace w @ [StageSet jid (Some TRANSCRIBING), Invoke jid Transcribe (Some TRANSCRIBING),
                                    StageSet jid (Some DIARIZING), Invoke jid Diarize (Some DIARIZING),
                                    StageSet jid (Some SUMMARIZING), Invoke jid Summarize (Some SUMMARIZING),
                                    StageSet jid (Some FAILED)])"
  using empty_turns_fail_run [OF assms, of with_tts]
  by (simp add: summarize_def)

theorem empty_transcript_is_terminal_witness:
  "jobs (pipeline_state example_world) ''j''
     = Some \<lparr>job_id = ''j'', stage = UPLOADED, detail = None, created_at = 0,
             updated_at = 0, errors = [],
             assets = [''source_audio'' \<mapsto> ''/media/j/source.mp3'']\<rparr>
   \<and> transcribe_audio (example_env\<lparr>transcribe_audio := silent_transcribe\<rparr>) ''source.mp3''
       = Inr (''en'', [])
   \<and> disk_error (example_env\<lparr>transcribe_audio := silent_transcribe\<rparr>) ''j'' ''transcript.json'' = None
   \<and> diarize (hoard (example_env\<lparr>transcribe_audio := silent_transcribe\<rparr>)) [] ''source.mp3'' = Inr []
   \<and> disk_error (example_env\<lparr>transcribe_audio := silent_transcribe\<rparr>) ''j'' ''diarized.json'' = None
   \<and> summarize stub_llm [] = Inl (SummarizationError ''Transcript is empty.'')
   \<and> fst (process_job (example_env\<lparr>transcribe_audio := silent_transcribe\<rparr>)
              ''j'' ''source.mp3'' True example_world)
       = Inr \<lparr>job_id = ''j'', stage = FAILED, detail = Some ''Generating LLM summary'',
              created_at = 0, updated_at = 4,
              errors = [''Transcript is empty.''],
              assets = [''source_audio'' \<mapsto> ''/media/j/source.mp3'',
                        ''transcript'' \<mapsto> ''/media/j/transcript.json'',
                        ''diarized_transcript'' \<mapsto> ''/media/j/diarized.json'']\<rparr>
   \<and> trace (snd (process_job (example_env\<lparr>transcribe_audio := silent_transcribe\<rparr>)
              ''j'' ''source.mp3'' True example_world))
       = [StageSet ''j'' (Some TRANSCRIBING), Invoke ''j'' Transcribe (Some TRANSCRIBING),
          StageSet ''j'' (Some DIARIZING), Invoke ''j'' Diarize (Some DIARIZING),
          StageSet ''j'' (Some SUMMARIZING), Invoke ''j'' Summarize (Some SUMMARIZING),
          StageSet ''j'' (Some FAILED)]"
  using empty_transcript_is_terminal [of example_world "''j''" _
      "example_env\<lparr>transcribe_audio := silent_transcribe\<rparr>" "''source.mp3''" "''en''" "[]"
      stub_llm True]
  by (simp add: block_defs step_defs fixture_defs diarize_def summarize_def silent_transcribe_def
        media_url_def)





section \<open>Claims about the process endpoint\<close>

text \<open>
  C6 (as amended). For a job present in the registry whose directory holds no file
  named \<open>source.*\<close> (no audio has been stored for it yet), \<open>start_processing\<close> fails
  with status 400 and the detail \<open>Audio source not available for processing.\<close>, not
  with \<open>NotFound\<close>; it leaves the registry unchanged and the job's directory exists
  afterwards.
\<close>

theorem start_processing_without_audio:
  assumes "jobs (pipeline_state w) (req_job_id request) = Some s"
    and "fst (get_job_dir (req_job_id request) w) = Inr job_dir"
    and "glob_source job_dir = []"
  shows "fst (start_processing request w)
           = Inl (HTTPException 400 ''Audio source not available for processing.'')
       \<and> pipeline_state (snd (start_processing request w)) = pipeline_state w
       \<and> results_dir (snd (start_processing request w)) (req_job_id request) = Some job_dir"
  using assms start_processing_no_audio [of request w job_dir]
  by (auto simp: get_job_dir_def split: option.splits)

theorem start_processing_without_audio_witness:
  "jobs (pipeline_state (snd (run_create_status example_env ''j'' init_world))) ''j''
     = Some \<lparr>job_id = ''j'', stage = UPLOADED, detail = None, created_at = 0,
             updated_at = 0, errors = [], assets = Map.empty\<rparr>
   \<and> fst (get_job_dir ''j'' (snd (run_create_status example_env ''j'' init_world))) = Inr []
   \<and> glob_source [] = []
   \<and> fst (start_processing \<lparr>req_job_id = ''j'', enable_tts = False\<rparr>
             (snd (run_create_status example_env ''j'' init_world)))
       = Inl (HTTPException 400 ''Audio source not available for processing.'')"
  using start_processing_without_audio
    [of "snd (run_create_status example_env ''j'' init_world)"
        "\<lparr>req_job_id = ''j'', enable_tts = False\<rparr>" _ "[]"]
  by (simp add: run_create_status_def create_status_def Let_def init_world_def init_state_def
        example_env_def get_job_dir_def glob_source_def)


text \<open>
  C6 fails as stated: job \<open>j\<close> has been created and has no audio yet, and
  \<open>start_processing\<close> answers 400, not 404; for the id \<open>ghost\<close>, which the registry
  does not hold, it answers 400 as well.
\<close>

theorem start_processing_not_found_counterexample:
  "jobs (pipeline_state (snd (run_create_status example_env ''j'' init_world))) ''j''
     = Some \<lparr>job_id = ''j'', stage = UPLOADED, detail = None, created_at = 0,
             updated_at = 0, errors = [], assets = Map.empty\<rparr>
   \<and> fst (start_processing \<lparr>req_job_id = ''j'', enable_tts = False\<rparr>
             (snd (run_create_status example_env ''j'' init_world)))
       = Inl (HTTPException 400 ''Audio source not available for processing.'')
   \<and> jobs (pipeline_state init_world) ''ghost'' = None
   \<and> fst (start_processing \<lparr>req_job_id = ''ghost'', enable_tts = False\<rparr> init_world)
       = Inl (HTTPException 400 ''Audio source not available for processing.'')"
  by (simp add: start_processing_def run_create_status_def create_status_def Let_def
        init_world_def init_state_def example_env_def get_job_dir_def glob_source_def)

text \<open>
  C10 (as amended). \<open>start_processing\<close> has no guard per job: for a job present in
  the registry whose directory holds a source audio file, an invocation returns the
  job's current status, whatever its stage, schedules one run for the job and leaves
  the world as it was, so that a second invocation does the same again; and a
  scheduled run that starts sets the job's stage in the registry to \<open>TRANSCRIBING\<close>,
  whatever the stage was, and then waits for the transcription adapter.
\<close>

theorem start_processing_has_no_guard:
  assumes "jobs (pipeline_state w) (req_job_id request) = Some s"
    and "results_dir w (req_job_id request) = Some files"
    and "glob_source files = a # as"
  shows "start_processing request w =
           (Inr (\<lparr>resp_job_id = req_job_id request, resp_status = s\<rparr>,
                 [\<lparr>task_job_id = req_job_id request, task_audio_path = a,
                   task_enable_tts = enable_tts request\<rparr>]), w)
       \<and> start_processing request (snd (start_processing request w)) = start_processing request w
       \<and> resume ev \<lparr>task_job_id = req_job_id request, task_audio_path = a,
                     task_enable_tts = enable_tts request\<rparr> NotStarted w
           = (AwaitTranscribe (transcribe_audio ev a),
              w\<lparr>pipeline_state := (pipeline_state w)\<lparr>jobs := (jobs (pipeline_state w))
                    (req_job_id request \<mapsto>
                       s\<lparr>stage := TRANSCRIBING, detail := Some ''Running transcription'',
                          updated_at := utcnow ev (clock_reads w)\<rparr>)\<rparr>,
                 clock_reads := Suc (clock_reads w),
                 trace := trace w @ [StageSet (req_job_id request) (Some TRANSCRIBING),
                                     Invoke (req_job_id request) Transcribe (Some TRANSCRIBING)]\<rparr>)"
  using start_processing_schedules [OF assms]
    resume_start [of w "\<lparr>task_job_id = req_job_id request, task_audio_path = a,
                         task_enable_tts = enable_tts request\<rparr>" s ev] assms(1)
  by simp

theorem start_processing_has_no_guard_witness:
  "jobs (pipeline_state example_world) (req_job_id example_request)
     = Some \<lparr>job_id = ''j'', stage = UPLOADED, detail = None, created_at = 0,
             updated_at = 0, errors = [],
             assets = [''source_audio'' \<mapsto> ''/media/j/source.mp3'']\<rparr>
   \<and> results_dir example_world (req_job_id example_request) = Some [(''source.mp3'', ''audio'')]
   \<and> glob_source [(''source.mp3'', ''audio'')] = [''source.mp3'']
   \<and> map_sum id snd (fst (start_processing example_request example_world)) = Inr [example_task]
   \<and> snd (start_processing example_request example_world) = example_world
   \<and> fst (resume example_env example_task NotStarted example_world)
       = AwaitTranscribe (Inr (''en'', example_turns))
   \<and> jobs (pipeline_state (snd (resume example_env example_task NotStarted example_world))) ''j''
       = Some \<lparr>job_id = ''j'', stage = TRANSCRIBING, detail = Some ''Running transcription'',
               created_at = 0, updated_at = 1, errors = [],
               assets = [''source_audio'' \<mapsto> ''/media/j/source.mp3'']\<rparr>"
  using start_processing_has_no_guard [of example_world example_request _
      "[(''source.mp3'', ''audio'')]" "''source.mp3''" "[]" example_env]
  by (simp add: example_request_def example_task_def example_world_def init_state_def
        glob_source_def example_env_def stub_transcribe_def)


text \<open>
  C10 fails as stated: two invocations of \<open>start_processing\<close> for job \<open>j\<close> schedule
  two runs. With each run going from its start to the \<open>await\<close> of the diarizer
  (first one run, then the other) and the two runs alternating from there, both runs are
  active at the same time, both run to their end, and the stage writes of the two
  runs are interleaved: every stage is written twice.
\<close>

theorem two_runs_interleave_counterexample:
  "map_sum id snd (fst (start_processing example_request example_world)) = Inr [example_task]
   \<and> snd (start_processing example_request example_world) = example_world
   \<and> map_sum id snd (fst (start_processing example_request
                             (snd (start_processing example_request example_world))))
       = Inr [example_task]
   \<and> map (active \<circ> snd)
        (fst (run_schedule example_env [0, 0, 1, 1]
                ([(example_task, NotStarted), (example_task, NotStarted)], example_world)))
       = [True, True]
   \<and> stages_written
        (trace (snd (run_schedule example_env [0, 0, 1, 1, 0, 1, 0, 1]
                ([(example_task, NotStarted), (example_task, NotStarted)], example_world))))
       = [Some TRANSCRIBING, Some DIARIZING, Some TRANSCRIBING, Some DIARIZING,
          Some SUMMARIZING, Some SUMMARIZING, Some COMPLETED, Some COMPLETED]
   \<and> map snd
        (fst (run_schedule example_env [0, 0, 1, 1, 0, 1, 0, 1]
                ([(example_task, NotStarted), (example_task, NotStarted)], example_world)))
       = [Returned, Returned]"
  by (simp add: schedule_defs example_request_def start_processing_def glob_source_def
        ensure_job_def Let_def summary_section_def)

end
